theory Spec2Isabelle
  imports Complex_Main "HOL-Library.Sublist"
begin

section \<open>JavaScript strings and numbers, as far as the route uses them\<close>

text \<open>
  The generation route (\<^verbatim>\<open>src/unnamed/part_001\<close>, from line 324) is TypeScript. A string is
  modelled as a \<^typ>\<open>string\<close>, one \<^typ>\<open>char\<close> per code unit; code units above 255 are
  outside the model. Numbers that the route only ever uses as integers (scores, penalties,
  milliseconds, HTTP statuses, list positions) are \<^typ>\<open>int\<close> or \<^typ>\<open>nat\<close>; a number that
  may be any double (a confidence an agent reports, the configured threshold) is a
  \<open>jsnum\<close>, with the reals standing for the finite doubles.
\<close>

datatype jsnum = NaN | NegInf | Fin real | PosInf

text \<open>\<^verbatim>\<open>\s\<close> and \<^verbatim>\<open>String.prototype.trim\<close> share one white-space set; below 256 it is
  TAB, LF, VT, FF, CR, SPACE and NBSP.\<close>

definition is_ws :: "char \<Rightarrow> bool" where
  "is_ws c = (c \<in> set [CHR 0x09, CHR 0x0A, CHR 0x0B, CHR 0x0C, CHR 0x0D, CHR 0x20, CHR 0xA0])"

definition trimStart :: "string \<Rightarrow> string" where
  "trimStart s = dropWhile is_ws s"

definition trimEnd :: "string \<Rightarrow> string" where
  "trimEnd s = rev (dropWhile is_ws (rev s))"

definition trim :: "string \<Rightarrow> string" where
  "trim s = trimEnd (trimStart s)"

text \<open>\<^verbatim>\<open>toLowerCase\<close> on the ASCII letters; every other code unit of the model is kept.\<close>

definition lower_char :: "char \<Rightarrow> char" where
  "lower_char c =
     (case map_of (zip ''ABCDEFGHIJKLMNOPQRSTUVWXYZ'' ''abcdefghijklmnopqrstuvwxyz'') c of
        Some d \<Rightarrow> d
      | None \<Rightarrow> c)"

definition toLowerCase :: "string \<Rightarrow> string" where
  "toLowerCase s = map lower_char s"

text \<open>\<^verbatim>\<open>hay.startsWith(needle)\<close> is \<^const>\<open>prefix\<close>; \<^verbatim>\<open>hay.includes(needle)\<close>:\<close>

fun str_includes :: "string \<Rightarrow> string \<Rightarrow> bool" where
  "str_includes [] needle = (needle = [])"
| "str_includes (c # cs) needle = (prefix needle (c # cs) \<or> str_includes cs needle)"

text \<open>\<^verbatim>\<open>xs.join(sep)\<close>\<close>

fun join :: "string \<Rightarrow> string list \<Rightarrow> string" where
  "join sep [] = []"
| "join sep [x] = x"
| "join sep (x # y # ys) = x @ sep @ join sep (y # ys)"

text \<open>The decimal numeral of a natural number, as a template literal prints it.\<close>

definition digit_char :: "nat \<Rightarrow> char" where
  "digit_char d = ''0123456789'' ! d"

fun string_of_nat :: "nat \<Rightarrow> string" where
  "string_of_nat n =
     (if n < 10 then [digit_char n] else string_of_nat (n div 10) @ [digit_char (n mod 10)])"

text \<open>\<^verbatim>\<open>function clamp(n, min, max) { return Math.max(min, Math.min(max, n)) }\<close> (line 372),
  on numbers that are not NaN.\<close>

definition clamp :: "'a::linorder \<Rightarrow> 'a \<Rightarrow> 'a \<Rightarrow> 'a" where
  "clamp n lo hi = max lo (min hi n)"

text \<open>\<^verbatim>\<open>a < b\<close> for an integer \<open>a\<close> and any number \<open>b\<close>: false against NaN.\<close>

fun int_less_num :: "int \<Rightarrow> jsnum \<Rightarrow> bool" where
  "int_less_num a NaN = False"
| "int_less_num a NegInf = False"
| "int_less_num a (Fin r) = (real_of_int a < r)"
| "int_less_num a PosInf = True"

section \<open>Validation agents\<close>

datatype agent_status = Pass | Fail

record ValidationAgentResult =
  status :: agent_status
  issues :: "string list"
  confidence :: real

record ValidationSwarmResults =
  citation :: ValidationAgentResult
  recency :: ValidationAgentResult
  fact_check :: ValidationAgentResult
  tone :: ValidationAgentResult

text \<open>
  What an agent's reply parsed to (\<^verbatim>\<open>raw: unknown\<close>), read the way \<^verbatim>\<open>normalizeAgentResult\<close>
  reads it: \<open>NotRecord\<close> when \<^verbatim>\<open>isRecord(raw)\<close> is false; otherwise \<open>raw_status\<close> is
  \<^verbatim>\<open>raw.status\<close> when that is a string, \<open>raw_issues\<close> the entries of \<^verbatim>\<open>raw.issues\<close> after
  \<^verbatim>\<open>String(i)\<close> when that is an array, and \<open>raw_confidence\<close> the number
  \<^verbatim>\<open>typeof c === 'number' ? c : Number(c)\<close>.
\<close>

datatype parsed_reply =
    NotRecord
  | Reply (raw_status: "string option") (raw_issues: "string list option") (raw_confidence: jsnum)

text \<open>\<^verbatim>\<open>clamp(x, 0, 1)\<close> followed by \<^verbatim>\<open>Number.isFinite(confidence) ? confidence : 0\<close>:
  \<^verbatim>\<open>Math.min\<close> and \<^verbatim>\<open>Math.max\<close> hand NaN on, and clamp an infinity to the bound.\<close>

fun normal_confidence :: "jsnum \<Rightarrow> real" where
  "normal_confidence NaN = 0"
| "normal_confidence NegInf = 0"
| "normal_confidence (Fin r) = clamp r 0 1"
| "normal_confidence PosInf = 1"

text \<open>\<^verbatim>\<open>normalizeAgentResult\<close> (lines 398-408).\<close>

fun normalizeAgentResult :: "parsed_reply \<Rightarrow> string \<Rightarrow> ValidationAgentResult" where
  "normalizeAgentResult NotRecord fallbackIssue =
     \<lparr>status = Fail, issues = [fallbackIssue], confidence = 0\<rparr>"
| "normalizeAgentResult (Reply statusRaw issuesRaw confidenceRaw) fallbackIssue =
     \<lparr>status = (if statusRaw = Some ''pass'' then Pass else Fail),
      issues = (case issuesRaw of
                  Some is \<Rightarrow> take 25 (filter (\<lambda>s. trim s \<noteq> []) is)
                | None \<Rightarrow> []),
      confidence = normal_confidence confidenceRaw\<rparr>"

text \<open>What \<^verbatim>\<open>callOpenRouterJson\<close> resolves to: \<^verbatim>\<open>{ok: true, parsed, rawText}\<close> or
  \<^verbatim>\<open>{ok: false, reason}\<close>. It catches every error of its own, so it never rejects.\<close>

datatype json_call = JsonOk parsed_reply string | JsonFailed string

fun call_ok :: "json_call \<Rightarrow> bool" where
  "call_ok (JsonOk p r) = True"
| "call_ok (JsonFailed r) = False"

fun rawText :: "json_call \<Rightarrow> string" where
  "rawText (JsonOk p r) = r"
| "rawText (JsonFailed r) = []"

text \<open>\<^verbatim>\<open>res.ok ? normalizeAgentResult(res.parsed, `${name}_failed`) :
  {status: 'fail', issues: [`${name}_${res.reason}`], confidence: 0}\<close> (lines 938-946).\<close>

fun parse_agent :: "string \<Rightarrow> json_call \<Rightarrow> ValidationAgentResult" where
  "parse_agent name (JsonOk parsed r) = normalizeAgentResult parsed (name @ ''_failed'')"
| "parse_agent name (JsonFailed reason) =
     \<lparr>status = Fail, issues = [name @ ''_'' @ reason], confidence = 0\<rparr>"

text \<open>The replies of the four agent calls of one run. The recency call is made only in news
  mode or after the internet fallback; \<open>recency_reply\<close> is read only then.\<close>

record swarm_replies =
  citation_reply :: json_call
  recency_reply :: json_call
  fact_reply :: json_call
  tone_reply :: json_call

record AgentInsert =
  agent_name :: string
  insert_status :: agent_status
  insert_confidence :: real
  details :: ValidationAgentResult
  raw_text :: string

record swarm_out =
  results :: ValidationSwarmResults
  trustScore :: int
  swarm_warnings :: "string list"
  agentInserts :: "AgentInsert list"

text \<open>\<^verbatim>\<open>Number(c.toFixed(2))\<close>: the nearest hundredth, the larger one on a tie.\<close>

definition toFixed2 :: "real \<Rightarrow> real" where
  "toFixed2 c = real_of_int \<lfloor>c * 100 + 1 / 2\<rfloor> / 100"

definition recency_applicable :: "string \<Rightarrow> bool \<Rightarrow> bool" where
  "recency_applicable mode internetFallbackUsed = (mode = ''news'' \<or> internetFallbackUsed)"

text \<open>The reply that stands in for the recency agent when it is not called (line 933).\<close>

definition recency_skipped_reply :: json_call where
  "recency_skipped_reply = JsonOk (Reply (Some ''pass'') (Some [''skipped_non_news_mode'']) (Fin 1)) []"

definition make_insert :: "string \<Rightarrow> ValidationAgentResult \<Rightarrow> string \<Rightarrow> AgentInsert" where
  "make_insert name parsed raw =
     \<lparr>agent_name = name, insert_status = status parsed,
      insert_confidence = toFixed2 (confidence parsed), details = parsed, raw_text = raw\<rparr>"

text \<open>\<^verbatim>\<open>validation_swarm\<close> (lines 849-997), from the replies of its agent calls on.
  \<open>trustThreshold\<close> is \<^verbatim>\<open>env.trustThreshold\<close>.\<close>

definition validation_swarm :: "jsnum \<Rightarrow> string \<Rightarrow> bool \<Rightarrow> swarm_replies \<Rightarrow> swarm_out" where
  "validation_swarm trustThreshold mode internetFallbackUsed replies =
     (let citationRes = citation_reply replies;
          recencyRes = (if recency_applicable mode internetFallbackUsed
                        then recency_reply replies else recency_skipped_reply);
          factRes = fact_reply replies;
          toneRes = tone_reply replies;
          citationParsed = parse_agent ''citation_agent'' citationRes;
          recencyParsed =
            (if recency_applicable mode internetFallbackUsed
             then parse_agent ''recency_agent'' recencyRes
             else (case recencyRes of
                     JsonOk parsed r \<Rightarrow> normalizeAgentResult parsed ''recency_skipped''
                   | JsonFailed reason \<Rightarrow> normalizeAgentResult NotRecord ''recency_skipped''));
          factParsed = parse_agent ''fact_check_agent'' factRes;
          toneParsed = parse_agent ''tone_agent'' toneRes;
          penalty_citation = (if status citationParsed = Fail then 25 else 0);
          penalty_recency =
            (if recency_applicable mode internetFallbackUsed \<and> status recencyParsed = Fail
             then 20 else 0);
          penalty_fact_check = (if status factParsed = Fail then 40 else 0);
          penalty_tone = (if status toneParsed = Fail then 15 else 0);
          score = clamp (100 - penalty_citation - penalty_recency - penalty_fact_check - penalty_tone)
                    0 100
      in \<lparr>results = \<lparr>citation = citationParsed, recency = recencyParsed,
                      fact_check = factParsed, tone = toneParsed\<rparr>,
          trustScore = score,
          swarm_warnings = (if int_less_num score trustThreshold
                            then [''This content requires manual review.''] else []),
          agentInserts =
            [make_insert ''citation'' citationParsed (rawText citationRes),
             make_insert ''recency'' recencyParsed
               (if mode = ''news'' \<and> call_ok recencyRes then rawText recencyRes else []),
             make_insert ''fact_check'' factParsed (rawText factRes),
             make_insert ''tone'' toneParsed (rawText toneRes)]\<rparr>)"

text \<open>The penalty table in the specification's words: the penalties that apply, summed,
  taken from 100 and clamped to 0..100.\<close>

definition applicable_penalties ::
  "agent_status \<Rightarrow> bool \<Rightarrow> agent_status \<Rightarrow> agent_status \<Rightarrow> agent_status \<Rightarrow> int list" where
  "applicable_penalties c applicable r f t =
     (if c = Fail then [25] else []) @
     (if r = Fail \<and> applicable then [20] else []) @
     (if f = Fail then [40] else []) @
     (if t = Fail then [15] else [])"

definition spec_trustScore ::
  "agent_status \<Rightarrow> bool \<Rightarrow> agent_status \<Rightarrow> agent_status \<Rightarrow> agent_status \<Rightarrow> int" where
  "spec_trustScore c applicable r f t = clamp (100 - sum_list (applicable_penalties c applicable r f t)) 0 100"

text \<open>A run used as the worked example: news mode, no internet fallback, the fact-check
  agent reports a failure and the other three pass.\<close>

definition example_replies :: swarm_replies where
  "example_replies =
     \<lparr>citation_reply = JsonOk (Reply (Some ''pass'') (Some []) (Fin 0.9)) ''{}'',
      recency_reply = JsonOk (Reply (Some ''pass'') (Some []) (Fin 1)) ''{}'',
      fact_reply = JsonOk (Reply (Some ''fail'') (Some [''unsupported claim'']) (Fin 0.8)) ''{}'',
      tone_reply = JsonOk (Reply (Some ''pass'') None NaN) ''{}''\<rparr>"

section \<open>Retry gateway\<close>

text \<open>
  An error value is modelled by the text \<^verbatim>\<open>errorMessage(err)\<close> gives for it.
  \<^verbatim>\<open>isRetryableEdgeFunctionError\<close> (lines 794-808):
\<close>

definition isRetryableEdgeFunctionError :: "string \<Rightarrow> bool" where
  "isRetryableEdgeFunctionError err =
     (let msg = toLowerCase err in
      if msg = [] then False
      else if str_includes msg ''cohere_unavailable'' then False
      else if str_includes msg ''_timeout'' then True
      else if str_includes msg ''earlydrop'' then True
      else if str_includes msg ''shutdown'' then True
      else if str_includes msg ''edge function'' \<and> str_includes msg ''failed'' then True
      else if str_includes msg ''fetch failed'' then True
      else if str_includes msg ''econnreset'' then True
      else if str_includes msg ''etimedout'' then True
      else if str_includes msg ''socket'' then True
      else if str_includes msg ''504'' \<or> str_includes msg ''503'' then True
      else False)"

text \<open>
  One attempt of \<^verbatim>\<open>withTimeout(supabaseAdmin.functions.invoke(fn, ...), timeoutMs, ...)\<close>:
  either the timer wins, or the call resolves to \<^verbatim>\<open>{data, error}\<close>. \<open>Resolved d e\<close> holds
  \<^verbatim>\<open>val?.data ?? null\<close> and \<^verbatim>\<open>val?.error ?? null\<close>: \<open>None\<close> for \<open>e\<close> is a falsy error.
  (The client library's \<^verbatim>\<open>invoke\<close> reports its failures in \<^verbatim>\<open>error\<close>; it does not reject.)
\<close>

datatype 'd invoke_outcome = TimedOut | Resolved "'d option" "string option"

datatype gateway_event = Invoked string nat | Slept int

record 'd gateway_result =
  data :: "'d option"
  error :: "string option"
  attempts :: nat

text \<open>
  \<^verbatim>\<open>invokeEdgeFunctionWithRetry\<close> (lines 810-847). \<open>outcome k\<close> is what attempt \<open>k\<close> meets;
  the events are the calls made and the back-off sleeps (\<^verbatim>\<open>setTimeout(r, 250 * attempt)\<close>),
  in order.
\<close>

function gateway_loop ::
  "string \<Rightarrow> (nat \<Rightarrow> 'd invoke_outcome) \<Rightarrow> nat \<Rightarrow> nat \<Rightarrow> 'd gateway_result \<times> gateway_event list" where
  "gateway_loop fn outcome mx attempt =
     (if attempt \<le> mx then
        (case outcome attempt of
           TimedOut \<Rightarrow>
             (let err = fn @ ''_timeout'' in
              if attempt < mx \<and> isRetryableEdgeFunctionError err
              then (let (r, evs) = gateway_loop fn outcome mx (attempt + 1)
                    in (r, Invoked fn attempt # Slept (250 * int attempt) # evs))
              else (\<lparr>data = None, error = Some err, attempts = attempt\<rparr>, [Invoked fn attempt]))
         | Resolved d None \<Rightarrow>
             (\<lparr>data = d, error = None, attempts = attempt\<rparr>, [Invoked fn attempt])
         | Resolved d (Some fnError) \<Rightarrow>
             (if attempt < mx \<and> isRetryableEdgeFunctionError fnError
              then (let (r, evs) = gateway_loop fn outcome mx (attempt + 1)
                    in (r, Invoked fn attempt # Slept (250 * int attempt) # evs))
              else (\<lparr>data = None, error = Some fnError, attempts = attempt\<rparr>,
                    [Invoked fn attempt])))
      else (\<lparr>data = None, error = Some ''unreachable'', attempts = mx\<rparr>, []))"
  by pat_completeness auto
termination
  by (relation "measure (\<lambda>(fn, outcome, mx, attempt). Suc mx - attempt)") auto

definition invokeEdgeFunctionWithRetry ::
  "string \<Rightarrow> int \<Rightarrow> (nat \<Rightarrow> 'd invoke_outcome) \<Rightarrow> 'd gateway_result \<times> gateway_event list" where
  "invokeEdgeFunctionWithRetry fn maxAttempts outcome =
     gateway_loop fn outcome (nat (max 1 maxAttempts)) 1"

text \<open>The error an attempt ends with, if any: the timer's \<^verbatim>\<open>`${fn}_timeout`\<close> or the
  call's own error.\<close>

fun failure_text :: "string \<Rightarrow> 'd invoke_outcome \<Rightarrow> string option" where
  "failure_text fn TimedOut = Some (fn @ ''_timeout'')"
| "failure_text fn (Resolved d e) = e"

text \<open>The data an attempt ends with: \<^verbatim>\<open>val?.data ?? null\<close> of a call that resolved without an
  error, and \<^verbatim>\<open>null\<close> after a failure.\<close>

fun attempt_data :: "'d invoke_outcome \<Rightarrow> 'd option" where
  "attempt_data TimedOut = None"
| "attempt_data (Resolved d None) = d"
| "attempt_data (Resolved d (Some e)) = None"

text \<open>The retry markers of the policy table, on the lower-cased error text.\<close>

definition has_retry_marker :: "string \<Rightarrow> bool" where
  "has_retry_marker msg =
     (str_includes msg ''_timeout'' \<or> str_includes msg ''earlydrop''
      \<or> str_includes msg ''shutdown''
      \<or> (str_includes msg ''edge function'' \<and> str_includes msg ''failed'')
      \<or> str_includes msg ''fetch failed'' \<or> str_includes msg ''econnreset''
      \<or> str_includes msg ''etimedout'' \<or> str_includes msg ''socket''
      \<or> str_includes msg ''504'' \<or> str_includes msg ''503'')"

definition cold_start :: "string \<Rightarrow> bool" where
  "cold_start msg = str_includes msg ''cohere_unavailable''"

text \<open>The calls and sleeps of a run that retried after each of the attempts \<open>a, ..., n - 1\<close>.\<close>

definition retried :: "string \<Rightarrow> nat \<Rightarrow> nat \<Rightarrow> gateway_event list" where
  "retried fn a n = concat (map (\<lambda>k. [Invoked fn k, Slept (250 * int k)]) [a..<n])"

section \<open>Evidence verifier\<close>

text \<open>
  \<^verbatim>\<open>new URL(candidate)\<close> is the platform's parser and is a parameter here: \<open>None\<close> when the
  constructor throws, otherwise the parsed URL's \<^verbatim>\<open>protocol\<close> and its \<^verbatim>\<open>toString()\<close>.
\<close>

type_synonym url_parser = "string \<Rightarrow> (string \<times> string) option"

definition is_alpha :: "char \<Rightarrow> bool" where
  "is_alpha c = (lower_char c \<in> set ''abcdefghijklmnopqrstuvwxyz'')"

definition is_digit :: "char \<Rightarrow> bool" where
  "is_digit c = (c \<in> set ''0123456789'')"

text \<open>\<^verbatim>\<open>/^[a-z0-9.-]+\.[a-z]{2,}(?:[/?#]|$)/i.test(s)\<close>: some dot at a position \<open>i \<ge> 1\<close> has only
  letters, digits, dots and hyphens before it and, after it, \<open>j \<ge> 2\<close> letters that end the
  string or are followed by one of \<^verbatim>\<open>/ ? #\<close>.\<close>

definition bare_host :: "string \<Rightarrow> bool" where
  "bare_host s =
     list_ex (\<lambda>i.
        list_all (\<lambda>c. is_alpha c \<or> is_digit c \<or> c = CHR ''.'' \<or> c = CHR ''-'') (take i s)
        \<and> s ! i = CHR ''.''
        \<and> list_ex (\<lambda>j.
              list_all is_alpha (take j (drop (Suc i) s))
              \<and> (case drop (Suc i + j) s of
                    [] \<Rightarrow> True
                  | c # cs \<Rightarrow> c = CHR ''/'' \<or> c = CHR ''?'' \<or> c = CHR ''#''))
            [2..<Suc (length s - Suc i)])
       [1..<length s]"

text \<open>\<^verbatim>\<open>normalizeUrlString\<close> (lines 542-561).\<close>

definition normalizeUrlString :: "url_parser \<Rightarrow> string \<Rightarrow> string" where
  "normalizeUrlString parseURL input =
     (let raw = trim input in
      if raw = [] then []
      else
        (let candidate1 = (if prefix ''//'' raw then ''https:'' @ raw else raw);
             candidate =
               (if \<not> prefix ''http://'' candidate1 \<and> \<not> prefix ''https://'' candidate1
                then (if prefix ''www.'' candidate1 then ''https://'' @ candidate1
                      else if bare_host candidate1 then ''https://'' @ candidate1
                      else candidate1)
                else candidate1)
         in (case parseURL candidate of
               None \<Rightarrow> []
             | Some (protocol, href) \<Rightarrow>
                 if protocol \<noteq> ''http:'' \<and> protocol \<noteq> ''https:'' then [] else href)))"

text \<open>What \<^verbatim>\<open>fetch(u, {method: 'GET', redirect: 'follow', signal: timeoutSignal(ms)})\<close> comes to:
  it throws (network failure, abort on timeout), or it resolves to a response with its
  \<^verbatim>\<open>status\<close> and \<^verbatim>\<open>url\<close>, the address the redirects ended at.\<close>

datatype fetch_outcome = FetchFailed | Response int string

record url_check =
  ok :: bool
  final_url :: string
  http_status :: "int option"

text \<open>\<^verbatim>\<open>checkUrlExists\<close> (lines 573-594); \<open>net\<close> answers the probe of an address. The fields
  \<open>final_url\<close> and \<open>http_status\<close> are the source's \<^verbatim>\<open>url\<close> and \<^verbatim>\<open>status\<close>.\<close>

definition checkUrlExists :: "url_parser \<Rightarrow> (string \<Rightarrow> fetch_outcome) \<Rightarrow> string \<Rightarrow> url_check" where
  "checkUrlExists parseURL net url =
     (let u = normalizeUrlString parseURL url in
      if u = [] then \<lparr>ok = False, final_url = [], http_status = None\<rparr>
      else
        (case net u of
           Response st res_url \<Rightarrow>
             \<lparr>ok = ((200 \<le> st \<and> st < 400) \<or> st = 401 \<or> st = 403 \<or> st = 405 \<or> st = 429),
              final_url =
                (let n = normalizeUrlString parseURL (if res_url \<noteq> [] then res_url else u)
                 in if n \<noteq> [] then n else u),
              http_status = Some st\<rparr>
         | FetchFailed \<Rightarrow> \<lparr>ok = False, final_url = u, http_status = None\<rparr>))"

text \<open>The statuses the specification lists as "exists".\<close>

definition accepted_status :: "int \<Rightarrow> bool" where
  "accepted_status st = (st \<in> {200..399} \<or> st \<in> {401, 403, 405, 429})"

text \<open>A stand-in parser for worked examples: it knows absolute URLs by their scheme prefix
  and serialises them unchanged.\<close>

definition example_parser :: url_parser where
  "example_parser s =
     (if prefix ''https://'' s then Some (''https:'', s)
      else if prefix ''http://'' s then Some (''http:'', s)
      else if prefix ''ftp://'' s then Some (''ftp:'', s)
      else None)"

section \<open>Sources section and content source notice\<close>

record Citation =
  title :: string
  url :: string
  source :: string

text \<open>A literal of a case-insensitive pattern (given in lower case) at the start of \<open>s\<close>.\<close>

definition ci_prefix :: "string \<Rightarrow> string \<Rightarrow> bool" where
  "ci_prefix lit s = prefix lit (toLowerCase s)"

text \<open>\<^verbatim>\<open>\s*[\r\n]\<close> at the start of \<open>s\<close>: the white space \<open>s\<close> starts with holds a CR or an LF.\<close>

definition ws_then_newline :: "string \<Rightarrow> bool" where
  "ws_then_newline s = list_ex (\<lambda>c. c = CHR 0x0D \<or> c = CHR 0x0A) (takeWhile is_ws s)"

text \<open>
  \<^verbatim>\<open>/\n##\s*(Sources\s*\/\s*References|Sources|References)\s*[\r\n]/i\<close> matching at the start of
  \<open>s\<close>. Each \<^verbatim>\<open>\s*\<close> is followed by a character that is not white space, so it takes all
  the white space there is.
\<close>

definition sources_heading_here :: "string \<Rightarrow> bool" where
  "sources_heading_here s =
     (prefix ''\<newline>##'' s \<and>
      (let r = dropWhile is_ws (drop 3 s) in
         (ci_prefix ''sources'' r \<and>
            (let a = dropWhile is_ws (drop 7 r) in
               prefix ''/'' a \<and>
               (let b = dropWhile is_ws (drop 1 a) in
                  ci_prefix ''references'' b \<and> ws_then_newline (drop 10 b))))
         \<or> (ci_prefix ''sources'' r \<and> ws_then_newline (drop 7 r))
         \<or> (ci_prefix ''references'' r \<and> ws_then_newline (drop 10 r))))"

text \<open>\<^verbatim>\<open>text.search(re)\<close>: the first position the pattern matches at (\<open>None\<close> for \<open>-1\<close>).\<close>

fun search_sources_heading :: "string \<Rightarrow> nat option" where
  "search_sources_heading [] = None"
| "search_sources_heading (c # cs) =
     (if sources_heading_here (c # cs) then Some 0
      else map_option Suc (search_sources_heading cs))"

text \<open>\<^verbatim>\<open>stripTrailingSourcesSection\<close> (lines 669-673).\<close>

definition stripTrailingSourcesSection :: "string \<Rightarrow> string" where
  "stripTrailingSourcesSection txt =
     (case search_sources_heading txt of
        None \<Rightarrow> trim txt
      | Some idx \<Rightarrow> trim (take idx txt))"

text \<open>The callback of \<^verbatim>\<open>citations.map((c, i) => ...)\<close> in \<^verbatim>\<open>formatSourcesSection\<close>.\<close>

definition source_entry :: "nat \<Rightarrow> Citation \<Rightarrow> string" where
  "source_entry i c =
     (let title1 = (let t = trim (if title c \<noteq> [] then title c else ''Source'')
                    in if t \<noteq> [] then t else ''Source'');
          url1 = trim (url c)
      in if url1 \<noteq> []
         then ''['' @ string_of_nat (i + 1) @ ''] '' @ title1 @ '' - '' @ url1
         else ''['' @ string_of_nat (i + 1) @ ''] '' @ title1)"

text \<open>\<^verbatim>\<open>formatSourcesSection\<close> (lines 675-685).\<close>

definition formatSourcesSection :: "Citation list \<Rightarrow> string" where
  "formatSourcesSection citations =
     (if citations = []
      then ''\<newline>\<newline>## Sources / References\<newline>No sources were retrieved.\<newline>''
      else (let refs = join ''\<newline>'' (map (\<lambda>(i, c). source_entry i c) (enumerate 0 citations))
            in ''\<newline>\<newline>## Sources / References\<newline>'' @ refs @ ''\<newline>''))"

text \<open>\<^verbatim>\<open>buildGenerationNotice\<close> (lines 687-691).\<close>

definition buildGenerationNotice :: "string \<Rightarrow> string \<Rightarrow> string" where
  "buildGenerationNotice contentSource st =
     ''## Generation Notice\<newline>Content source: '' @ trim contentSource
       @ ''\<newline>Status: '' @ trim st @ ''\<newline>\<newline>''"

definition is_word_char :: "char \<Rightarrow> bool" where
  "is_word_char c = (is_alpha c \<or> is_digit c \<or> c = CHR ''_'')"

text \<open>\<^verbatim>\<open>/##\s*Content Source Notice\b/i\<close> matching at the start of \<open>s\<close>; the literal has 21
  characters, and \<^verbatim>\<open>\b\<close> after its last letter asks for the end of the text or a character
  that is not a word character.\<close>

definition notice_heading_here :: "string \<Rightarrow> bool" where
  "notice_heading_here s =
     (prefix ''##'' s \<and>
      (let r = dropWhile is_ws (drop 2 s) in
         ci_prefix ''content source notice'' r \<and>
         (case drop 21 r of [] \<Rightarrow> True | c # cs \<Rightarrow> \<not> is_word_char c)))"

text \<open>\<^verbatim>\<open>re.test(text)\<close>: the pattern matches somewhere.\<close>

fun has_notice_heading :: "string \<Rightarrow> bool" where
  "has_notice_heading [] = False"
| "has_notice_heading (c # cs) = (notice_heading_here (c # cs) \<or> has_notice_heading cs)"

text \<open>The number of places the pattern matches at.\<close>

fun notice_count :: "string \<Rightarrow> nat" where
  "notice_count [] = 0"
| "notice_count (c # cs) = (if notice_heading_here (c # cs) then 1 else 0) + notice_count cs"

text \<open>
  A Content Source Notice section, in the specification's words, is taken to begin where
  the pattern matches at the start of a line: at the start of the text or right after a
  line feed. \<open>notice_sections\<close> counts these places; \<open>notice_sections_from b s\<close> does so for
  a text \<open>s\<close> whose first character starts a line when \<open>b\<close> holds.
\<close>

fun notice_sections_from :: "bool \<Rightarrow> string \<Rightarrow> nat" where
  "notice_sections_from b [] = 0"
| "notice_sections_from b (c # cs) =
     (if b \<and> notice_heading_here (c # cs) then 1 else 0) + notice_sections_from (c = CHR 0x0A) cs"

definition notice_sections :: "string \<Rightarrow> nat" where
  "notice_sections s = notice_sections_from True s"

text \<open>
  What lines 1471-1474 make of the generated text, and lines 1496-1499 and 1514-1517 of a
  rewritten one: the text without its sources section, the rendered sources section, and
  the notice when the internet fallback was used and no notice heading is found.
\<close>

definition with_sources_and_notice :: "Citation list \<Rightarrow> bool \<Rightarrow> string \<Rightarrow> string \<Rightarrow> string" where
  "with_sources_and_notice citations internetFallbackUsed contentSourceNotice txt =
     (let finalBody = stripTrailingSourcesSection txt @ formatSourcesSection citations in
      if internetFallbackUsed \<and> \<not> has_notice_heading finalBody
      then finalBody @ ''\<newline>\<newline>## Content Source Notice\<newline>'' @ contentSourceNotice @ ''\<newline>''
      else finalBody)"

text \<open>The entry the specification asks for at position \<open>k\<close> (counted from 0) of the rendered
  list: the number \<open>k + 1\<close> in brackets, the title (\<open>Source\<close> when blank) and, when the
  citation has one, the URL.\<close>

definition numbered_entry :: "nat \<Rightarrow> Citation \<Rightarrow> string" where
  "numbered_entry k c =
     ''['' @ string_of_nat (Suc k) @ ''] ''
       @ (if trim (title c) = [] then ''Source'' else trim (title c))
       @ (if trim (url c) = [] then [] else '' - '' @ trim (url c))"

text \<open>Citations used in worked examples: one with a padded URL, one with a blank title and
  no URL.\<close>

definition example_citations :: "Citation list" where
  "example_citations =
     [\<lparr>title = ''FDA label'', url = '' https://fda.gov/x '', source = ''FDA''\<rparr>,
      \<lparr>title = ''  '', url = [], source = ''SOP''\<rparr>]"

section \<open>The generation route\<close>

text \<open>
  \<^verbatim>\<open>POST\<close> (lines 999-1656), from the parsed JSON body to the response. What the outside
  world answers is a parameter (the record \<open>world\<close>); the calls the handler makes are
  returned as a list of events next to the response. Values that only travel into
  prompts and payloads, and so into what the outside world answers, are not modelled: the
  prompt texts, the target word count, the existing body, the chunks handed to the
  validators, the usage metrics and the hero image address.
\<close>

subsection \<open>Request and configuration\<close>

text \<open>A field of the body, typed \<^verbatim>\<open>unknown\<close>: a string, another falsy value
  (\<^verbatim>\<open>undefined\<close>, \<^verbatim>\<open>null\<close>, \<^verbatim>\<open>false\<close>, \<^verbatim>\<open>0\<close>), or another truthy value with the text
  \<^verbatim>\<open>String(v)\<close> gives for it.\<close>

datatype jsvalue = Str string | Falsy | Truthy string

fun truthy :: "jsvalue \<Rightarrow> bool" where
  "truthy (Str s) = (s \<noteq> [])"
| "truthy Falsy = False"
| "truthy (Truthy t) = True"

text \<open>\<^verbatim>\<open>String(v || '')\<close>\<close>

fun text_or_empty :: "jsvalue \<Rightarrow> string" where
  "text_or_empty (Str s) = s"
| "text_or_empty Falsy = []"
| "text_or_empty (Truthy t) = t"

text \<open>The fields the handler destructures from the body (line 1002); \<open>req_keyword\<close> is the
  body's \<^verbatim>\<open>keyword\<close>, and so on.\<close>

record request_body =
  req_topic :: jsvalue
  req_keyword :: jsvalue
  req_primaryKeyword :: jsvalue
  req_secondaryKeyword :: jsvalue
  req_mode :: jsvalue
  req_userId :: jsvalue
  req_contentType :: jsvalue
  req_humanizeLevel :: jsvalue

text \<open>\<^verbatim>\<open>env\<close> (\<^verbatim>\<open>src/unnamed/part_006\<close>), the keys the handler reads, and
  \<^verbatim>\<open>process.env.GENERATION_MAX_ATTEMPTS\<close> (\<open>None\<close> when unset or empty, else its number,
  taken to be an integer).\<close>

record env =
  supabaseServiceRoleKey :: string
  openRouterApiKey :: string
  validationSwarmAgent1 :: string
  validationSwarmAgent2 :: string
  validationSwarmAgent3 :: string
  validationSwarmAgent4 :: string
  textModel :: string
  textModelFallback :: string
  humanizeContentModel :: string
  trustThreshold :: jsnum
  generationMaxAttempts :: "int option"

definition validHumanizeLevels :: "string list" where
  "validHumanizeLevels = [''off'', ''standard'', ''strong'']"

text \<open>\<^verbatim>\<open>humanizeLevelText\<close> (lines 1014-1018).\<close>

definition humanizeLevelText :: "jsvalue \<Rightarrow> string" where
  "humanizeLevelText humanizeLevel =
     (case humanizeLevel of
        Str s \<Rightarrow> if s \<in> set validHumanizeLevels then s else ''standard''
      | Falsy \<Rightarrow> ''standard''
      | Truthy t \<Rightarrow> ''standard'')"

definition validContentTypes :: "string list" where
  "validContentTypes =
     [''long_article'', ''short_article'', ''web2_article'', ''pr'', ''webpage_revision'',
      ''meta_tags'', ''webpage_summary'']"

text \<open>\<^verbatim>\<open>contentTypeText\<close> (lines 1024-1037).\<close>

definition contentTypeText :: "jsvalue \<Rightarrow> string" where
  "contentTypeText contentType =
     (case contentType of
        Str s \<Rightarrow> if s \<in> set validContentTypes then s else ''long_article''
      | Falsy \<Rightarrow> ''long_article''
      | Truthy t \<Rightarrow> ''long_article'')"

text \<open>Lines 1004-1008.\<close>

definition topicText :: "request_body \<Rightarrow> string" where
  "topicText req =
     (case req_topic req of Str s \<Rightarrow> trim s | Falsy \<Rightarrow> trim [] | Truthy t \<Rightarrow> trim t)"

definition userIdText :: "request_body \<Rightarrow> string" where
  "userIdText req =
     (case req_userId req of Str s \<Rightarrow> trim s | Falsy \<Rightarrow> trim [] | Truthy t \<Rightarrow> trim t)"

definition primary :: "request_body \<Rightarrow> string" where
  "primary req =
     trim (if truthy (req_keyword req) then text_or_empty (req_keyword req)
           else text_or_empty (req_primaryKeyword req))"

definition secondary :: "request_body \<Rightarrow> string" where
  "secondary req =
     (case req_secondaryKeyword req of Str s \<Rightarrow> trim s | Falsy \<Rightarrow> [] | Truthy t \<Rightarrow> [])"

definition keyword :: "request_body \<Rightarrow> string" where
  "keyword req = trim (join '' '' (filter (\<lambda>s. s \<noteq> []) [primary req, secondary req]))"

definition isNewsMode :: "request_body \<Rightarrow> bool" where
  "isNewsMode req = (req_mode req = Str ''news'')"

definition isPrivateMode :: "request_body \<Rightarrow> bool" where
  "isPrivateMode req = (req_mode req = Str ''private'')"

text \<open>
  \<^verbatim>\<open>baseOutput\<close>, \<^verbatim>\<open>outputForDb\<close> and \<^verbatim>\<open>outputForClient\<close> as records. Field names are
  unique across records here, so \<open>out_citations\<close> and \<open>out_warnings\<close> are the payload's
  \<^verbatim>\<open>citations\<close> and \<^verbatim>\<open>warnings\<close>, \<open>workflow_status\<close> is its \<^verbatim>\<open>status\<close>, and \<open>db_body\<close> and
  \<open>db_blocked\<close> are the \<^verbatim>\<open>body\<close> and \<^verbatim>\<open>blocked\<close> of the persisted record. The constant fields
  (\<^verbatim>\<open>direct_answer\<close>, \<^verbatim>\<open>table\<close>, \<^verbatim>\<open>faqs\<close>), the hero image addresses and \<^verbatim>\<open>run_metrics\<close> are
  left out.
\<close>

record base_output =
  out_citations :: "Citation list"
  validation_results :: ValidationSwarmResults
  trust_score :: int
  out_warnings :: "string list"
  internet_fallback_used :: bool
  content_source :: string
  content_source_notice :: string
  humanized :: bool
  workflow_status :: string

record db_output = base_output +
  db_body :: string
  db_blocked :: bool

record client_output = base_output +
  body :: string
  review_body :: string
  blocked :: bool
  draft_id :: string

text \<open>A response: \<^verbatim>\<open>NextResponse.json({error, details, retrieval_error}, {status})\<close> as
  \<open>JsonError status error details retrieval_error\<close>, or the client payload with status 200.\<close>

datatype response =
    JsonError int string "string option" "string option"
  | Json200 client_output

text \<open>\<^verbatim>\<open>requireKeys\<close> (\<^verbatim>\<open>src/unnamed/part_006\<close>): \<open>None\<close> when no key is missing, else the
  message of the error it throws.\<close>

definition requireKeys :: "(string \<times> string) list \<Rightarrow> string option" where
  "requireKeys keys =
     (let missing = map fst (filter (\<lambda>(k, v). v = []) keys) in
      if missing \<noteq> [] then Some (''Missing required env: '' @ join '', '' missing) else None)"

text \<open>The early returns of lines 1040-1068.\<close>

definition early_checks :: "env \<Rightarrow> request_body \<Rightarrow> response option" where
  "early_checks e req =
     (if supabaseServiceRoleKey e = [] then
        Some (JsonError 500 ''Server configuration error'' None None)
      else if topicText req = [] \<or> keyword req = [] \<or> userIdText req = [] then
        Some (JsonError 400 ''topic, primaryKeyword, userId required'' None None)
      else if requireKeys [(''openRouterApiKey'', openRouterApiKey e)] \<noteq> None then
        Some (JsonError 500 ''missing_openrouter_key'' None None)
      else
        (case requireKeys [(''validationSwarmAgent1'', validationSwarmAgent1 e),
                           (''validationSwarmAgent3'', validationSwarmAgent3 e),
                           (''validationSwarmAgent4'', validationSwarmAgent4 e)] of
           Some msg \<Rightarrow> Some (JsonError 500 ''missing_validation_swarm_agents'' (Some msg) None)
         | None \<Rightarrow>
             (if isNewsMode req then
                (case requireKeys [(''validationSwarmAgent2'', validationSwarmAgent2 e)] of
                   Some msg \<Rightarrow>
                     Some (JsonError 500 ''missing_validation_swarm_agents'' (Some msg) None)
                 | None \<Rightarrow> None)
              else None)))"

text \<open>\<^verbatim>\<open>remainingMs\<close> (line 1061), from the milliseconds elapsed since \<^verbatim>\<open>startedAt\<close>.\<close>

definition remainingMs :: "int \<Rightarrow> int" where
  "remainingMs elapsed = 85000 - elapsed"

subsection \<open>The outside world\<close>

record chunk_meta =
  meta_title :: "string option"
  meta_url :: "string option"

text \<open>A row of the private index: \<open>content\<close> is \<open>None\<close> when missing or null, \<open>metadata\<close> is
  \<open>None\<close> unless \<^verbatim>\<open>isRecord(d.metadata)\<close>, and a field of the metadata is \<open>None\<close> unless it
  is a string.\<close>

record PrivateChunk =
  content :: "string option"
  metadata :: "chunk_meta option"

datatype edge_data = Rows "PrivateChunk list" | NotArray

record InternetDoc =
  doc_title :: string
  doc_url :: string
  doc_content :: string
  doc_source :: string

text \<open>What \<^verbatim>\<open>fetch\<close> of the completion service comes to inside \<^verbatim>\<open>callOpenRouterText\<close>: it
  throws (\<open>Threw reason\<close>, the reason being \<open>timeout\<close> after an abort), answers with an
  error status and body text, or answers with the content of the first choice.\<close>

datatype http_outcome = Threw string | HttpError nat string | HttpOk string

datatype text_call = TextOk string | TextFailed string

text \<open>\<^verbatim>\<open>callOpenRouterText\<close> (lines 470-528), without the usage bookkeeping.\<close>

fun callOpenRouterText :: "http_outcome \<Rightarrow> text_call" where
  "callOpenRouterText (Threw reason) = TextFailed reason"
| "callOpenRouterText (HttpError st errText) =
     TextFailed (if errText \<noteq> [] then errText else ''openrouter_http_'' @ string_of_nat st)"
| "callOpenRouterText (HttpOk c) = TextOk (trim c)"

text \<open>The text of a completion call that counts (\<^verbatim>\<open>res.ok && res.text\<close>), and the empty
  string for a call that failed or gave no text.\<close>

definition reply_text :: "http_outcome \<Rightarrow> string" where
  "reply_text r = (case callOpenRouterText r of TextOk t \<Rightarrow> t | TextFailed reason \<Rightarrow> [])"

text \<open>The state the retrieval steps build (lines 1091-1097); \<open>context_text\<close> is the
  source's \<^verbatim>\<open>context\<close>.\<close>

record rstate =
  context_text :: string
  citations :: "Citation list"
  warnings :: "string list"
  retrievalError :: "string option"
  internetFallbackUsed :: bool

text \<open>
  The answers of the outside world to one request. For a request that is not in private
  mode, \<open>public_state\<close> is the retrieval state that lines 1166-1326 (public index, link
  verification, text search, secondary boost) leave behind; those lines are not modelled
  further, and they never set \<^verbatim>\<open>internetFallbackUsed\<close>. \<open>elapsed_at_rewrite\<close>,
  \<open>elapsed_at_strong\<close> and \<open>elapsed_at_swarm\<close> are \<^verbatim>\<open>Date.now() - startedAt\<close> at the three
  reads of \<^verbatim>\<open>remainingMs()\<close>. \<open>host_of\<close> is \<^verbatim>\<open>toHostSource\<close>. \<open>inserted_id\<close> is the id the
  draft insert reports in time, empty otherwise.
\<close>

record world =
  priv_invoke :: "nat \<Rightarrow> edge_data invoke_outcome"
  private_search :: "string + PrivateChunk list"
  public_state :: rstate
  internet_docs :: "string + InternetDoc list"
  host_of :: "string \<Rightarrow> string"
  generation_reply :: "nat \<Rightarrow> http_outcome"
  rewrite_standard_reply :: http_outcome
  rewrite_strong_reply :: http_outcome
  agent_replies :: swarm_replies
  elapsed_at_rewrite :: int
  elapsed_at_strong :: int
  elapsed_at_swarm :: int
  inserted_id :: string

datatype event =
    Gateway gateway_event
  | PrivateTextSearch
  | PublicRetrieval
  | InternetSearch
  | Generate string
  | Rewrite string
  | AgentCall string
  | InsertDraft db_output int bool
  | InsertAgents "AgentInsert list"

subsection \<open>Retrieval\<close>

definition initial_state :: rstate where
  "initial_state =
     \<lparr>context_text = [], citations = [], warnings = [], retrievalError = None,
      internetFallbackUsed = False\<rparr>"

text \<open>\<^verbatim>\<open>chunks.map((d) => d.content || '').join('\n\n')\<close>\<close>

definition context_of_chunks :: "PrivateChunk list \<Rightarrow> string" where
  "context_of_chunks chunks =
     join ''\<newline>\<newline>'' (map (\<lambda>d. case content d of Some s \<Rightarrow> s | None \<Rightarrow> []) chunks)"

text \<open>\<^verbatim>\<open>chunks.map((d) => d.metadata).filter(isRecord).map((m) => ({title: ..., url: ...,
  source: 'SOP'}))\<close>\<close>

definition citations_of_chunks :: "PrivateChunk list \<Rightarrow> Citation list" where
  "citations_of_chunks chunks =
     map (\<lambda>m. \<lparr>title = (case meta_title m of
                           Some t \<Rightarrow> if trim t \<noteq> [] then t else ''SOP''
                         | None \<Rightarrow> ''SOP''),
                url = (case meta_url m of Some u \<Rightarrow> u | None \<Rightarrow> []),
                source = ''SOP''\<rparr>)
         (List.map_filter metadata chunks)"

text \<open>Private mode, lines 1102-1164: the private index through the gateway (two attempts),
  the text search when no context came of it, and the generic SOP citation when there is
  context without citations.\<close>

definition retrieve_private :: "world \<Rightarrow> rstate \<times> event list" where
  "retrieve_private w =
     (let (priv, gw) = invokeEdgeFunctionWithRetry ''query-docs'' 2 (priv_invoke w);
          st1 = (case error priv of
                   Some privError \<Rightarrow> initial_state\<lparr>retrievalError := Some privError\<rparr>
                 | None \<Rightarrow>
                     (case data priv of
                        Some (Rows chunks) \<Rightarrow>
                          initial_state\<lparr>context_text := context_of_chunks chunks,
                                         citations := citations_of_chunks chunks\<rparr>
                      | Some NotArray \<Rightarrow> initial_state
                      | None \<Rightarrow> initial_state));
          (st2, ev2) =
            (if context_text st1 = [] then
               (case private_search w of
                  Inr fallbackChunks \<Rightarrow>
                    (if fallbackChunks \<noteq> [] then
                       st1\<lparr>warnings := warnings st1 @ [''Used private text search fallback for retrieval.''],
                           context_text := context_of_chunks fallbackChunks,
                           citations := citations_of_chunks fallbackChunks\<rparr>
                     else st1, [PrivateTextSearch])
                | Inl err \<Rightarrow>
                    (st1\<lparr>warnings := warnings st1 @ [''Private text search fallback failed: '' @ err]\<rparr>,
                     [PrivateTextSearch]))
             else (st1, []));
          st3 = (if context_text st2 \<noteq> [] \<and> citations st2 = []
                 then st2\<lparr>citations := [\<lparr>title = ''SOP'', url = [], source = ''SOP''\<rparr>]\<rparr>
                 else st2)
      in (st3, map Gateway gw @ ev2))"

text \<open>The other modes, lines 1166-1326: taken from the outside world as a whole. Any
  context, citations, warnings and retrieval error may come out of them; they are wrapped
  in \<^verbatim>\<open>try\<close>/\<^verbatim>\<open>catch\<close>, return nothing early, and call neither the completion service nor a
  validator.\<close>

definition retrieve_public :: "world \<Rightarrow> rstate \<times> event list" where
  "retrieve_public w = (public_state w\<lparr>internetFallbackUsed := False\<rparr>, [PublicRetrieval])"

text \<open>Internet fallback, lines 1328-1355. \<open>internet_docs\<close> is what \<^verbatim>\<open>collectInternetDocs\<close>
  returns, or the message of what it throws.\<close>

definition internet_fallback :: "bool \<Rightarrow> world \<Rightarrow> rstate \<Rightarrow> rstate \<times> event list" where
  "internet_fallback private w st =
     (if \<not> private \<and> citations st = [] then
        (case internet_docs w of
           Inr internetDocs \<Rightarrow>
             (if internetDocs \<noteq> [] then
                (let internetContext =
                       join ''\<newline>\<newline>'' (map (\<lambda>d. doc_title d @ ''\<newline>'' @ doc_content d) internetDocs)
                 in st\<lparr>internetFallbackUsed := True,
                        warnings := warnings st @ [''No universe sources found; used internet sources as fallback.''],
                        citations :=
                          map (\<lambda>d. \<lparr>title = (if doc_title d \<noteq> [] then doc_title d else ''Source''),
                                     url = doc_url d,
                                     source = (if doc_source d \<noteq> [] then doc_source d
                                               else host_of w (doc_url d))\<rparr>) internetDocs,
                        context_text := (if context_text st \<noteq> []
                                         then internetContext @ ''\<newline>\<newline>'' @ context_text st
                                         else internetContext)\<rparr>)
              else st, [InternetSearch])
         | Inl err \<Rightarrow>
             (st\<lparr>warnings := warnings st @ [''Internet fallback failed: '' @ err]\<rparr>, [InternetSearch]))
      else (st, []))"

text \<open>Lines 1101-1361: retrieval by mode, the internet fallback, and the cut of the context
  to 8000 characters.\<close>

definition retrieval :: "request_body \<Rightarrow> world \<Rightarrow> rstate \<times> event list" where
  "retrieval req w =
     (let (st1, ev1) = (if isPrivateMode req then retrieve_private w else retrieve_public w);
          (st2, ev2) = internet_fallback (isPrivateMode req) w st1
      in (st2\<lparr>context_text := take 8000 (context_text st2)\<rparr>, ev1 @ ev2))"

text \<open>Lines 1363-1376: with no citation, private mode answers 422 and the other modes go on
  flagged as internet fallback.\<close>

definition no_sources_gate :: "request_body \<Rightarrow> rstate \<Rightarrow> response + rstate" where
  "no_sources_gate req st =
     (if citations st = [] then
        (if isPrivateMode req then
           Inl (JsonError 422 ''no_sources''
                  (Some ''No valid sources found from retrieved RAG documents.'')
                  (retrievalError st))
         else
           Inr (st\<lparr>internetFallbackUsed := True,
                    warnings := warnings st @
                      [''No sources could be retrieved; generated a draft without verifiable citations.'']\<rparr>))
      else Inr st)"

text \<open>\<^verbatim>\<open>contentSourceNotice\<close> (lines 1412-1416).\<close>

definition contentSourceNotice :: "rstate \<Rightarrow> string" where
  "contentSourceNotice st =
     (if internetFallbackUsed st then
        (if citations st \<noteq> []
         then ''This content was generated from internet sources, not from the approved universe of public domains.''
         else ''Sources could not be retrieved; this draft was generated without verified sources and is not from the approved universe.'')
      else [])"

subsection \<open>Generation and rewrite\<close>

text \<open>\<^verbatim>\<open>xs.slice(0, k)\<close> for an integer \<open>k\<close>.\<close>

definition slice_to :: "'a list \<Rightarrow> int \<Rightarrow> 'a list" where
  "slice_to xs k = (if k < 0 then take (nat (int (length xs) + k)) xs else take (nat k) xs)"

text \<open>The candidates tried, lines 1436-1442 and 1445.\<close>

definition candidates :: "env \<Rightarrow> string list" where
  "candidates e = filter (\<lambda>s. s \<noteq> []) [textModel e, textModelFallback e, ''openrouter/auto'']"

definition tried_candidates :: "env \<Rightarrow> string list" where
  "tried_candidates e =
     (let defaultMaxAttempts = min 2 (int (length (candidates e)));
          maxAttempts = min (case generationMaxAttempts e of Some n \<Rightarrow> n | None \<Rightarrow> defaultMaxAttempts)
                            (int (length (candidates e)))
      in slice_to (candidates e) maxAttempts)"

text \<open>The loop of lines 1445-1467: \<open>reply k\<close> answers call number \<open>k\<close>. The result is
  \<^verbatim>\<open>finalBody\<close>, \<^verbatim>\<open>lastError\<close> and the calls made.\<close>

fun generate_loop ::
  "(nat \<Rightarrow> http_outcome) \<Rightarrow> nat \<Rightarrow> string list \<Rightarrow> string \<Rightarrow> string \<times> string \<times> event list" where
  "generate_loop reply k [] lastError = ([], lastError, [])"
| "generate_loop reply k (model # rest) lastError =
     (case callOpenRouterText (reply k) of
        TextFailed reason \<Rightarrow>
          (let (b, e, evs) = generate_loop reply (Suc k) rest reason
           in (b, e, Generate model # evs))
      | TextOk txt \<Rightarrow>
          (if txt \<noteq> [] then (txt, lastError, [Generate model])
           else (let (b, e, evs) = generate_loop reply (Suc k) rest lastError
                 in (b, e, Generate model # evs))))"

text \<open>\<^verbatim>\<open>shouldRewrite\<close> (lines 1477-1481).\<close>

definition shouldRewrite :: "env \<Rightarrow> request_body \<Rightarrow> world \<Rightarrow> bool" where
  "shouldRewrite e req w =
     (humanizeContentModel e \<noteq> []
      \<and> humanizeLevelText (req_humanizeLevel req) \<noteq> ''off''
      \<and> contentTypeText (req_contentType req) \<noteq> ''meta_tags''
      \<and> remainingMs (elapsed_at_rewrite w) > 20000)"

text \<open>What each rewrite pass does with the reply to its call (lines 1495-1501 and
  1513-1519): a reply with text replaces \<^verbatim>\<open>finalBody\<close> and sets \<^verbatim>\<open>humanized\<close>; any other
  reply leaves both as they are.\<close>

definition accept_rewrite :: "rstate \<Rightarrow> text_call \<Rightarrow> string \<times> bool \<Rightarrow> string \<times> bool" where
  "accept_rewrite st res cur =
     (case res of
        TextOk txt \<Rightarrow>
          (if txt \<noteq> []
           then (with_sources_and_notice (citations st) (internetFallbackUsed st)
                   (contentSourceNotice st) txt, True)
           else cur)
      | TextFailed reason \<Rightarrow> cur)"

text \<open>The rewrite passes, lines 1482-1522: \<^verbatim>\<open>finalBody\<close>, \<^verbatim>\<open>humanized\<close> and the calls made.\<close>

definition rewrite_pass ::
  "env \<Rightarrow> request_body \<Rightarrow> world \<Rightarrow> rstate \<Rightarrow> string \<Rightarrow> string \<times> bool \<times> event list" where
  "rewrite_pass e req w st finalBody =
     (if shouldRewrite e req w then
        (let cur1 = accept_rewrite st (callOpenRouterText (rewrite_standard_reply w)) (finalBody, False)
         in if humanizeLevelText (req_humanizeLevel req) = ''strong''
               \<and> remainingMs (elapsed_at_strong w) > 20000
            then
              (let cur2 = accept_rewrite st (callOpenRouterText (rewrite_strong_reply w)) cur1
               in (fst cur2, snd cur2, [Rewrite ''rewrite_standard'', Rewrite ''rewrite_strong'']))
            else (fst cur1, snd cur1, [Rewrite ''rewrite_standard'']))
      else (finalBody, False, []))"

subsection \<open>Validation, decision and response\<close>

definition skipped_result :: ValidationAgentResult where
  "skipped_result = \<lparr>status = Fail, issues = [''validation_skipped_time_budget''], confidence = 0\<rparr>"

text \<open>The value that stands in for the swarm's when it is not run (lines 1540-1550).\<close>

definition skipped_swarm :: swarm_out where
  "skipped_swarm =
     \<lparr>results = \<lparr>citation = skipped_result, recency = skipped_result,
                  fact_check = skipped_result, tone = skipped_result\<rparr>,
      trustScore = 0,
      swarm_warnings = [''This content requires manual review.''],
      agentInserts = []\<rparr>"

text \<open>\<^verbatim>\<open>String(mode || '')\<close>, the mode as the swarm is given it.\<close>

definition mode_text :: "request_body \<Rightarrow> string" where
  "mode_text req = text_or_empty (req_mode req)"

text \<open>The agent calls of one run of the swarm, by their \<^verbatim>\<open>purpose\<close>.\<close>

definition swarm_calls :: "string \<Rightarrow> bool \<Rightarrow> event list" where
  "swarm_calls mode fallbackUsed =
     [AgentCall ''validation_citation'', AgentCall ''validation_fact_check'',
      AgentCall ''validation_tone'']
     @ (if recency_applicable mode fallbackUsed then [AgentCall ''validation_recency''] else [])"

text \<open>Lines 1526-1550: the swarm is run when more than 15 s of the budget remain.\<close>

definition swarm_stage :: "env \<Rightarrow> request_body \<Rightarrow> world \<Rightarrow> rstate \<Rightarrow> swarm_out \<times> event list" where
  "swarm_stage e req w st =
     (if remainingMs (elapsed_at_swarm w) > 15000
      then (validation_swarm (trustThreshold e) (mode_text req) (internetFallbackUsed st)
              (agent_replies w),
            swarm_calls (mode_text req) (internetFallbackUsed st))
      else (skipped_swarm, []))"

text \<open>The events that are calls of a validation agent.\<close>

fun is_agent_call :: "event \<Rightarrow> bool" where
  "is_agent_call (AgentCall p) = True"
| "is_agent_call ev = False"

text \<open>The four statuses a swarm result reports, in the order citation, recency, fact check,
  tone.\<close>

definition statuses :: "ValidationSwarmResults \<Rightarrow> agent_status list" where
  "statuses r = [status (citation r), status (recency r), status (fact_check r), status (tone r)]"

text \<open>The workflow decision, lines 1552-1561: \<^verbatim>\<open>blocked\<close>, \<^verbatim>\<open>requiresReview\<close> and
  \<^verbatim>\<open>workflowStatus\<close>.\<close>

definition workflow_blocked :: "env \<Rightarrow> swarm_out \<Rightarrow> bool" where
  "workflow_blocked e swarm = int_less_num (trustScore swarm) (trustThreshold e)"

definition requiresReview :: "env \<Rightarrow> swarm_out \<Rightarrow> bool" where
  "requiresReview e swarm =
     (workflow_blocked e swarm \<or> list_ex (\<lambda>a. insert_status a = Fail) (agentInserts swarm))"

definition workflowStatus :: "env \<Rightarrow> swarm_out \<Rightarrow> string" where
  "workflowStatus e swarm = (if requiresReview e swarm then ''review'' else ''draft'')"

definition mergedWarnings :: "env \<Rightarrow> rstate \<Rightarrow> swarm_out \<Rightarrow> string list" where
  "mergedWarnings e st swarm =
     (let merged = warnings st @ swarm_warnings swarm in
      if workflow_blocked e swarm \<and> merged = []
      then merged @ [''This content requires manual review.''] else merged)"

text \<open>Line 1560: the generation notice in front of the trimmed body.\<close>

definition labelled_body :: "env \<Rightarrow> request_body \<Rightarrow> rstate \<Rightarrow> swarm_out \<Rightarrow> string \<Rightarrow> string" where
  "labelled_body e req st swarm finalBody =
     buildGenerationNotice
       (if isPrivateMode req then ''Private SOP context''
        else if internetFallbackUsed st then ''Internet fallback'' else ''Universe-based'')
       (if requiresReview e swarm then ''Needs manual review'' else ''Validated'')
     @ trim finalBody"

text \<open>\<^verbatim>\<open>baseOutput\<close>, \<^verbatim>\<open>outputForDb\<close> and \<^verbatim>\<open>outputForClient\<close> (lines 1568-1607).\<close>

definition baseOutput :: "env \<Rightarrow> request_body \<Rightarrow> rstate \<Rightarrow> swarm_out \<Rightarrow> bool \<Rightarrow> base_output" where
  "baseOutput e req st swarm was_humanized =
     \<lparr>out_citations = citations st,
      validation_results = results swarm,
      trust_score = trustScore swarm,
      out_warnings = mergedWarnings e st swarm,
      internet_fallback_used = internetFallbackUsed st,
      content_source = (if isPrivateMode req then ''private''
                        else if internetFallbackUsed st then ''internet'' else ''universe''),
      content_source_notice = contentSourceNotice st,
      humanized = was_humanized,
      workflow_status = workflowStatus e swarm\<rparr>"

definition outputForDb :: "base_output \<Rightarrow> string \<Rightarrow> bool \<Rightarrow> db_output" where
  "outputForDb base finalBody is_blocked =
     base_output.extend base \<lparr>db_body = finalBody, db_blocked = is_blocked\<rparr>"

definition outputForClient :: "base_output \<Rightarrow> string \<Rightarrow> bool \<Rightarrow> string \<Rightarrow> client_output" where
  "outputForClient base finalBody is_blocked insertedDraftId =
     base_output.extend base
       \<lparr>body = (if is_blocked then [] else finalBody),
        review_body = (if is_blocked then finalBody else []),
        blocked = is_blocked,
        draft_id = insertedDraftId\<rparr>"

text \<open>Lines 1476-1651: from the body of line 1474 to the response.\<close>

definition finish ::
  "env \<Rightarrow> request_body \<Rightarrow> world \<Rightarrow> rstate \<Rightarrow> string \<Rightarrow> response \<times> event list" where
  "finish e req w st body0 =
     (let (body1, was_humanized, ev_rewrite) = rewrite_pass e req w st body0;
          (swarm, ev_swarm) = swarm_stage e req w st;
          is_blocked = workflow_blocked e swarm;
          finalBody = labelled_body e req st swarm body1;
          base = baseOutput e req st swarm was_humanized;
          insertedDraftId = inserted_id w;
          ev_insert = InsertDraft (outputForDb base finalBody is_blocked) (trustScore swarm)
                        (requiresReview e swarm)
                      # (if insertedDraftId \<noteq> [] then [InsertAgents (agentInserts swarm)] else [])
      in (Json200 (outputForClient base finalBody is_blocked insertedDraftId),
          ev_rewrite @ ev_swarm @ ev_insert))"

text \<open>The handler.\<close>

definition POST :: "env \<Rightarrow> world \<Rightarrow> request_body \<Rightarrow> response \<times> event list" where
  "POST e w req =
     (case early_checks e req of
        Some resp \<Rightarrow> (resp, [])
      | None \<Rightarrow>
          (let (st1, ev_retrieval) = retrieval req w in
           case no_sources_gate req st1 of
             Inl resp \<Rightarrow> (resp, ev_retrieval)
           | Inr st \<Rightarrow>
               (let (text0, lastError, ev_gen) =
                      generate_loop (generation_reply w) 0 (tried_candidates e) []
                in if text0 = [] then
                     (JsonError 500 ''generation_failed''
                        (Some (if lastError \<noteq> [] then lastError else ''No model succeeded'')) None,
                      ev_retrieval @ ev_gen)
                   else
                     (let (resp, ev_rest) =
                            finish e req w st
                              (with_sources_and_notice (citations st) (internetFallbackUsed st)
                                 (contentSourceNotice st) text0)
                      in (resp, ev_retrieval @ ev_gen @ ev_rest)))))"

subsection \<open>A worked request\<close>

text \<open>A configuration with every key set and the default threshold of 80, a private-mode
  request, and an outside world in which the private index answers at once with one chunk,
  the first model writes a short draft, both rewrite calls time out, and every validator
  passes; 30 s have elapsed at each read of the clock.\<close>

definition example_env :: env where
  "example_env =
     \<lparr>supabaseServiceRoleKey = ''k'', openRouterApiKey = ''k'',
      validationSwarmAgent1 = ''a1'', validationSwarmAgent2 = ''a2'',
      validationSwarmAgent3 = ''a3'', validationSwarmAgent4 = ''a4'',
      textModel = ''m1'', textModelFallback = [], humanizeContentModel = ''h'',
      trustThreshold = Fin 80, generationMaxAttempts = None\<rparr>"

definition example_request :: request_body where
  "example_request =
     \<lparr>req_topic = Str ''Cleaning'', req_keyword = Falsy, req_primaryKeyword = Str ''SOP'',
      req_secondaryKeyword = Falsy, req_mode = Str ''private'', req_userId = Str ''u1'',
      req_contentType = Falsy, req_humanizeLevel = Str ''off''\<rparr>"

definition passing_reply :: json_call where
  "passing_reply = JsonOk (Reply (Some ''pass'') (Some []) (Fin 1)) ''{}''"

definition example_world :: world where
  "example_world =
     \<lparr>priv_invoke = (\<lambda>k. Resolved (Some (Rows [\<lparr>content = Some ''Wipe.'', metadata = None\<rparr>])) None),
      private_search = Inr [],
      public_state = initial_state,
      internet_docs = Inr [],
      host_of = (\<lambda>u. ''Internet''),
      generation_reply = (\<lambda>k. HttpOk ''Do it.''),
      rewrite_standard_reply = Threw ''timeout'',
      rewrite_strong_reply = Threw ''timeout'',
      agent_replies = \<lparr>citation_reply = passing_reply, recency_reply = passing_reply,
                        fact_reply = passing_reply, tone_reply = passing_reply\<rparr>,
      elapsed_at_rewrite = 30000, elapsed_at_strong = 30000, elapsed_at_swarm = 30000,
      inserted_id = ''d1''\<rparr>"

text \<open>Replies of four validators that all time out.\<close>

definition failing_replies :: swarm_replies where
  "failing_replies =
     \<lparr>citation_reply = JsonFailed ''timeout'', recency_reply = JsonFailed ''timeout'',
      fact_reply = JsonFailed ''timeout'', tone_reply = JsonFailed ''timeout''\<rparr>"

section \<open>Properties\<close>

lemma validation_swarm_results:
  "results (validation_swarm thr mode ifu replies) =
     \<lparr>citation = parse_agent ''citation_agent'' (citation_reply replies),
      recency = (if recency_applicable mode ifu
                 then parse_agent ''recency_agent'' (recency_reply replies)
                 else normalizeAgentResult (Reply (Some ''pass'') (Some [''skipped_non_news_mode'']) (Fin 1))
                        ''recency_skipped''),
      fact_check = parse_agent ''fact_check_agent'' (fact_reply replies),
      tone = parse_agent ''tone_agent'' (tone_reply replies)\<rparr>"
  by (simp add: validation_swarm_def Let_def recency_skipped_reply_def)

text \<open>
  C1. In every run of the validation swarm the trust score is 100 minus the penalties that
  apply (citation fail 25, recency fail 20 when recency is applicable, fact check fail 40,
  tone fail 15), clamped to 0..100: a function of the four statuses the run reports and of
  the applicability flag alone, and always an integer between 0 and 100.
\<close>

theorem trustScore_is_penalty_table:
  "trustScore (validation_swarm thr mode ifu replies) =
     spec_trustScore
       (status (citation (results (validation_swarm thr mode ifu replies))))
       (mode = ''news'' \<or> ifu)
       (status (recency (results (validation_swarm thr mode ifu replies))))
       (status (fact_check (results (validation_swarm thr mode ifu replies))))
       (status (tone (results (validation_swarm thr mode ifu replies))))
   \<and> 0 \<le> trustScore (validation_swarm thr mode ifu replies)
   \<and> trustScore (validation_swarm thr mode ifu replies) \<le> 100"
proof -
  let ?out = "validation_swarm thr mode ifu replies"
  have score: "trustScore ?out =
      clamp (100 - (if status (citation (results ?out)) = Fail then 25 else 0)
                 - (if recency_applicable mode ifu \<and> status (recency (results ?out)) = Fail
                    then 20 else 0)
                 - (if status (fact_check (results ?out)) = Fail then 40 else 0)
                 - (if status (tone (results ?out)) = Fail then 15 else 0)) 0 100"
    by (simp add: validation_swarm_def Let_def)
  have table: "trustScore ?out =
      spec_trustScore (status (citation (results ?out))) (mode = ''news'' \<or> ifu)
        (status (recency (results ?out))) (status (fact_check (results ?out)))
        (status (tone (results ?out)))"
    unfolding score spec_trustScore_def applicable_penalties_def recency_applicable_def
    by simp
  have range: "0 \<le> trustScore ?out \<and> trustScore ?out \<le> 100"
    unfolding score by (simp add: clamp_def)
  from table range show ?thesis by simp
qed

theorem trustScore_is_penalty_table_witness:
  "trustScore (validation_swarm (Fin 80) ''news'' False example_replies) = 60
   \<and> spec_trustScore Pass True Pass Fail Pass = 60
   \<and> status (fact_check (results (validation_swarm (Fin 80) ''news'' False example_replies))) = Fail"
  using trustScore_is_penalty_table [of "Fin 80" "''news''" False example_replies]
  by (simp add: validation_swarm_results example_replies_def spec_trustScore_def
      applicable_penalties_def clamp_def recency_applicable_def)

subsection \<open>Retry gateway\<close>

declare gateway_loop.simps [simp del]

lemma str_includes_Nil [simp]: "str_includes s []"
  by (cases s) simp_all

lemma isRetryable_iff:
  "isRetryableEdgeFunctionError e =
     (\<not> cold_start (toLowerCase e) \<and> has_retry_marker (toLowerCase e))"
  unfolding isRetryableEdgeFunctionError_def has_retry_marker_def cold_start_def Let_def
  by (cases "toLowerCase e = []") auto

lemma gateway_loop_retry:
  assumes "attempt < mx" "failure_text fn (outcome attempt) = Some e" "isRetryableEdgeFunctionError e"
  shows "gateway_loop fn outcome mx attempt =
     (fst (gateway_loop fn outcome mx (Suc attempt)),
      Invoked fn attempt # Slept (250 * int attempt) # snd (gateway_loop fn outcome mx (Suc attempt)))"
  using assms
  by (subst gateway_loop.simps) (auto split: invoke_outcome.splits option.splits prod.splits)

lemma gateway_loop_stop:
  assumes "attempt \<le> mx" "failure_text fn (outcome attempt) = Some e"
    "\<not> (attempt < mx \<and> isRetryableEdgeFunctionError e)"
  shows "gateway_loop fn outcome mx attempt =
     (\<lparr>data = None, error = Some e, attempts = attempt\<rparr>, [Invoked fn attempt])"
  using assms
  by (subst gateway_loop.simps) (auto split: invoke_outcome.splits option.splits prod.splits)

lemma gateway_loop_success:
  assumes "attempt \<le> mx" "outcome attempt = Resolved d None"
  shows "gateway_loop fn outcome mx attempt =
     (\<lparr>data = d, error = None, attempts = attempt\<rparr>, [Invoked fn attempt])"
  using assms
  by (subst gateway_loop.simps) (auto split: invoke_outcome.splits option.splits prod.splits)

lemma retried_step: "a < n \<Longrightarrow> retried fn a n = Invoked fn a # Slept (250 * int a) # retried fn (Suc a) n"
  by (simp add: retried_def upt_conv_Cons)

lemma retried_empty [simp]: "retried fn n n = []"
  by (simp add: retried_def)

lemma gateway_loop_last:
  assumes "a \<le> mx"
    and "a = mx \<or> (\<forall>e. failure_text fn (outcome a) = Some e \<longrightarrow> \<not> isRetryableEdgeFunctionError e)"
  shows "gateway_loop fn outcome mx a =
     (\<lparr>data = attempt_data (outcome a), error = failure_text fn (outcome a), attempts = a\<rparr>,
      [Invoked fn a])"
proof (cases "failure_text fn (outcome a)")
  case None
  then obtain d where o: "outcome a = Resolved d None"
    by (cases "outcome a") auto
  with assms(1) show ?thesis by (simp add: gateway_loop_success)
next
  case (Some e)
  with assms(2) have "\<not> (a < mx \<and> isRetryableEdgeFunctionError e)" by auto
  with assms(1) Some have "gateway_loop fn outcome mx a =
     (\<lparr>data = None, error = Some e, attempts = a\<rparr>, [Invoked fn a])"
    by (rule gateway_loop_stop)
  moreover have "attempt_data (outcome a) = None"
    using Some by (cases "outcome a" rule: attempt_data.cases) auto
  ultimately show ?thesis using Some by simp
qed

text \<open>Every run: the attempts \<open>a, ..., n\<close> are made, each but the last one failing with a
  retryable error, and attempt \<open>n\<close> decides the result.\<close>

lemma gateway_loop_total:
  assumes "a \<le> mx"
  shows "\<exists>n. a \<le> n \<and> n \<le> mx
     \<and> (\<forall>k. a \<le> k \<and> k < n \<longrightarrow>
           (\<exists>e. failure_text fn (outcome k) = Some e \<and> isRetryableEdgeFunctionError e))
     \<and> (n = mx \<or> (\<forall>e. failure_text fn (outcome n) = Some e \<longrightarrow> \<not> isRetryableEdgeFunctionError e))
     \<and> gateway_loop fn outcome mx a =
        (\<lparr>data = attempt_data (outcome n), error = failure_text fn (outcome n), attempts = n\<rparr>,
         retried fn a n @ [Invoked fn n])"
  using assms
proof (induction "mx - a" arbitrary: a)
  case 0
  then have "a = mx" by simp
  then have "gateway_loop fn outcome mx a =
     (\<lparr>data = attempt_data (outcome a), error = failure_text fn (outcome a), attempts = a\<rparr>,
      [Invoked fn a])"
    by (intro gateway_loop_last) simp_all
  with \<open>a = mx\<close> show ?case by (intro exI [of _ a]) auto
next
  case (Suc d)
  then have lt: "a < mx" by simp
  show ?case
  proof (cases "\<exists>e. failure_text fn (outcome a) = Some e \<and> isRetryableEdgeFunctionError e")
    case True
    then obtain e where e: "failure_text fn (outcome a) = Some e" "isRetryableEdgeFunctionError e"
      by blast
    have step: "gateway_loop fn outcome mx a =
       (fst (gateway_loop fn outcome mx (Suc a)),
        Invoked fn a # Slept (250 * int a) # snd (gateway_loop fn outcome mx (Suc a)))"
      using lt e by (rule gateway_loop_retry)
    have "d = mx - Suc a" "Suc a \<le> mx" using Suc.hyps(2) lt by simp_all
    from Suc.hyps(1) [OF this] obtain n where n: "Suc a \<le> n" "n \<le> mx"
      and earlier: "\<forall>k. Suc a \<le> k \<and> k < n \<longrightarrow>
           (\<exists>e. failure_text fn (outcome k) = Some e \<and> isRetryableEdgeFunctionError e)"
      and last: "n = mx \<or> (\<forall>e. failure_text fn (outcome n) = Some e \<longrightarrow> \<not> isRetryableEdgeFunctionError e)"
      and run: "gateway_loop fn outcome mx (Suc a) =
        (\<lparr>data = attempt_data (outcome n), error = failure_text fn (outcome n), attempts = n\<rparr>,
         retried fn (Suc a) n @ [Invoked fn n])"
      by blast
    have an: "a < n" using n(1) by simp
    have earlier': "\<forall>k. a \<le> k \<and> k < n \<longrightarrow>
           (\<exists>e. failure_text fn (outcome k) = Some e \<and> isRetryableEdgeFunctionError e)"
    proof (intro allI impI)
      fix k assume k: "a \<le> k \<and> k < n"
      show "\<exists>e. failure_text fn (outcome k) = Some e \<and> isRetryableEdgeFunctionError e"
      proof (cases "k = a")
        case True
        with e show ?thesis by blast
      next
        case False
        with k have "Suc a \<le> k \<and> k < n" by simp
        with earlier show ?thesis by blast
      qed
    qed
    have "gateway_loop fn outcome mx a =
        (\<lparr>data = attempt_data (outcome n), error = failure_text fn (outcome n), attempts = n\<rparr>,
         retried fn a n @ [Invoked fn n])"
      by (simp add: step run retried_step [OF an])
    with an n(2) earlier' last show ?thesis
      by (intro exI [of _ n]) simp
  next
    case False
    then have "gateway_loop fn outcome mx a =
       (\<lparr>data = attempt_data (outcome a), error = failure_text fn (outcome a), attempts = a\<rparr>,
        [Invoked fn a])"
      using lt by (intro gateway_loop_last) auto
    with False lt show ?thesis by (intro exI [of _ a]) auto
  qed
qed

text \<open>
  C6, as amended. Every call of the gateway makes the attempts \<open>1, ..., n\<close> for some \<open>n\<close>
  up to the bound \<open>max 1 maxAttempts\<close> and returns what attempt \<open>n\<close> ended with, as a
  value: its data and no error after a success, and no data and the error after a failure.
  Each attempt before \<open>n\<close> failed with an error whose lower-cased text carries a retry marker
  (\<open>_timeout\<close>, \<open>earlydrop\<close>, \<open>shutdown\<close>, \<open>edge function\<close> with \<open>failed\<close>, \<open>fetch failed\<close>,
  \<open>econnreset\<close>, \<open>etimedout\<close>, \<open>socket\<close>, \<open>503\<close>, \<open>504\<close>) and does not carry
  \<open>cohere_unavailable\<close>, and was followed by a sleep of 250 ms times its number. Attempt
  \<open>n\<close> is the last one allowed, or it succeeded, or its error text carries
  \<open>cohere_unavailable\<close> or no retry marker: the gateway does not go on after such an
  attempt.
\<close>

theorem retry_gateway_policy:
  fixes outcome :: "nat \<Rightarrow> 'd invoke_outcome"
  shows "\<exists>n. 1 \<le> n \<and> n \<le> nat (max 1 maxAttempts)
     \<and> (\<forall>k. 1 \<le> k \<and> k < n \<longrightarrow>
           (\<exists>e. failure_text fn (outcome k) = Some e
                \<and> has_retry_marker (toLowerCase e) \<and> \<not> cold_start (toLowerCase e)))
     \<and> (n = nat (max 1 maxAttempts)
          \<or> (\<forall>e. failure_text fn (outcome n) = Some e \<longrightarrow>
                cold_start (toLowerCase e) \<or> \<not> has_retry_marker (toLowerCase e)))
     \<and> invokeEdgeFunctionWithRetry fn maxAttempts outcome =
        (\<lparr>data = attempt_data (outcome n), error = failure_text fn (outcome n), attempts = n\<rparr>,
         retried fn 1 n @ [Invoked fn n])"
proof -
  let ?mx = "nat (max 1 maxAttempts)"
  have "1 \<le> ?mx" by simp
  from gateway_loop_total [OF this, of fn outcome] obtain n where n: "1 \<le> n" "n \<le> ?mx"
    and earlier: "\<forall>k. 1 \<le> k \<and> k < n \<longrightarrow>
           (\<exists>e. failure_text fn (outcome k) = Some e \<and> isRetryableEdgeFunctionError e)"
    and last: "n = ?mx \<or> (\<forall>e. failure_text fn (outcome n) = Some e \<longrightarrow> \<not> isRetryableEdgeFunctionError e)"
    and run: "gateway_loop fn outcome ?mx 1 =
        (\<lparr>data = attempt_data (outcome n), error = failure_text fn (outcome n), attempts = n\<rparr>,
         retried fn 1 n @ [Invoked fn n])"
    by blast
  from earlier have earlier': "\<forall>k. 1 \<le> k \<and> k < n \<longrightarrow>
           (\<exists>e. failure_text fn (outcome k) = Some e
                \<and> has_retry_marker (toLowerCase e) \<and> \<not> cold_start (toLowerCase e))"
    unfolding isRetryable_iff by blast
  from last have last': "n = ?mx
          \<or> (\<forall>e. failure_text fn (outcome n) = Some e \<longrightarrow>
                cold_start (toLowerCase e) \<or> \<not> has_retry_marker (toLowerCase e))"
    unfolding isRetryable_iff by blast
  from run have run': "invokeEdgeFunctionWithRetry fn maxAttempts outcome =
        (\<lparr>data = attempt_data (outcome n), error = failure_text fn (outcome n), attempts = n\<rparr>,
         retried fn 1 n @ [Invoked fn n])"
    by (simp only: invokeEdgeFunctionWithRetry_def)
  from n earlier' last' run' show ?thesis by blast
qed

theorem retry_gateway_policy_witness:
  "invokeEdgeFunctionWithRetry ''query-docs'' 2 (\<lambda>k. Resolved (None :: unit option) (Some ''Worker SHUTDOWN'')) =
     (\<lparr>data = None, error = Some ''Worker SHUTDOWN'', attempts = 2\<rparr>,
      [Invoked ''query-docs'' 1, Slept 250, Invoked ''query-docs'' 2])
   \<and> invokeEdgeFunctionWithRetry ''query-docs'' 2 (\<lambda>k. Resolved (None :: unit option) (Some ''cohere_unavailable'')) =
     (\<lparr>data = None, error = Some ''cohere_unavailable'', attempts = 1\<rparr>, [Invoked ''query-docs'' 1])
   \<and> invokeEdgeFunctionWithRetry ''query-docs'' 2 (\<lambda>k. Resolved (None :: unit option) (Some ''bad request'')) =
     (\<lparr>data = None, error = Some ''bad request'', attempts = 1\<rparr>, [Invoked ''query-docs'' 1])"
proof -
  have m: "has_retry_marker (toLowerCase ''Worker SHUTDOWN'')" "\<not> cold_start (toLowerCase ''Worker SHUTDOWN'')"
    by (simp_all add: has_retry_marker_def cold_start_def toLowerCase_def lower_char_def)
  have c: "cold_start (toLowerCase ''cohere_unavailable'')"
    by (simp add: cold_start_def toLowerCase_def lower_char_def)
  have b: "\<not> has_retry_marker (toLowerCase ''bad request'')"
    by (simp add: has_retry_marker_def toLowerCase_def lower_char_def)
  have r1: "retried ''query-docs'' 1 1 = []" by simp
  have r2: "retried ''query-docs'' 1 2 = [Invoked ''query-docs'' 1, Slept 250]"
    by (simp add: retried_def upt_conv_Cons)
  have mx: "nat (max 1 (2::int)) = 2" by simp
  let ?shutdown = "\<lambda>k::nat. Resolved (None :: unit option) (Some ''Worker SHUTDOWN'')"
  let ?cold = "\<lambda>k::nat. Resolved (None :: unit option) (Some ''cohere_unavailable'')"
  let ?bad = "\<lambda>k::nat. Resolved (None :: unit option) (Some ''bad request'')"
  have one: "invokeEdgeFunctionWithRetry ''query-docs'' 2 ?shutdown =
     (\<lparr>data = None, error = Some ''Worker SHUTDOWN'', attempts = 2\<rparr>,
      [Invoked ''query-docs'' 1, Slept 250, Invoked ''query-docs'' 2])"
  proof -
    from retry_gateway_policy [of 2 "''query-docs''" ?shutdown] obtain n where
      n: "1 \<le> n" "n \<le> 2"
      and last: "n = 2 \<or> (\<forall>e. failure_text ''query-docs'' (?shutdown n) = Some e \<longrightarrow>
                cold_start (toLowerCase e) \<or> \<not> has_retry_marker (toLowerCase e))"
      and run: "invokeEdgeFunctionWithRetry ''query-docs'' 2 ?shutdown =
        (\<lparr>data = attempt_data (?shutdown n), error = failure_text ''query-docs'' (?shutdown n), attempts = n\<rparr>,
         retried ''query-docs'' 1 n @ [Invoked ''query-docs'' n])"
      unfolding mx by blast
    from last m have "n = 2" by simp
    with run r2 show ?thesis by simp
  qed
  have two: "invokeEdgeFunctionWithRetry ''query-docs'' 2 ?cold =
     (\<lparr>data = None, error = Some ''cohere_unavailable'', attempts = 1\<rparr>, [Invoked ''query-docs'' 1])"
  proof -
    from retry_gateway_policy [of 2 "''query-docs''" ?cold] obtain n where
      n: "1 \<le> n" "n \<le> 2"
      and earlier: "\<forall>k. 1 \<le> k \<and> k < n \<longrightarrow>
           (\<exists>e. failure_text ''query-docs'' (?cold k) = Some e
                \<and> has_retry_marker (toLowerCase e) \<and> \<not> cold_start (toLowerCase e))"
      and run: "invokeEdgeFunctionWithRetry ''query-docs'' 2 ?cold =
        (\<lparr>data = attempt_data (?cold n), error = failure_text ''query-docs'' (?cold n), attempts = n\<rparr>,
         retried ''query-docs'' 1 n @ [Invoked ''query-docs'' n])"
      unfolding mx by blast
    have "n = 1"
    proof (rule ccontr)
      assume "n \<noteq> 1"
      with n have "1 \<le> (1::nat) \<and> 1 < n" by simp
      with earlier have "\<exists>e. failure_text ''query-docs'' (?cold 1) = Some e
                \<and> has_retry_marker (toLowerCase e) \<and> \<not> cold_start (toLowerCase e)" by blast
      with c show False by simp
    qed
    with run r1 show ?thesis by simp
  qed
  have three: "invokeEdgeFunctionWithRetry ''query-docs'' 2 ?bad =
     (\<lparr>data = None, error = Some ''bad request'', attempts = 1\<rparr>, [Invoked ''query-docs'' 1])"
  proof -
    from retry_gateway_policy [of 2 "''query-docs''" ?bad] obtain n where
      n: "1 \<le> n" "n \<le> 2"
      and earlier: "\<forall>k. 1 \<le> k \<and> k < n \<longrightarrow>
           (\<exists>e. failure_text ''query-docs'' (?bad k) = Some e
                \<and> has_retry_marker (toLowerCase e) \<and> \<not> cold_start (toLowerCase e))"
      and run: "invokeEdgeFunctionWithRetry ''query-docs'' 2 ?bad =
        (\<lparr>data = attempt_data (?bad n), error = failure_text ''query-docs'' (?bad n), attempts = n\<rparr>,
         retried ''query-docs'' 1 n @ [Invoked ''query-docs'' n])"
      unfolding mx by blast
    have "n = 1"
    proof (rule ccontr)
      assume "n \<noteq> 1"
      with n have "1 \<le> (1::nat) \<and> 1 < n" by simp
      with earlier have "\<exists>e. failure_text ''query-docs'' (?bad 1) = Some e
                \<and> has_retry_marker (toLowerCase e) \<and> \<not> cold_start (toLowerCase e)" by blast
      with b show False by simp
    qed
    with run r1 show ?thesis by simp
  qed
  from one two three show ?thesis by (intro conjI)
qed

text \<open>
  C6 as the specification states it fails: an error text can carry \<open>shutdown\<close> and \<open>503\<close>
  together with \<open>cohere_unavailable\<close>; the cold-start marker is tested first, so the gateway
  gives up after the first of its two attempts.
\<close>

theorem retry_marker_cold_start_counterexample:
  "str_includes (toLowerCase ''cohere_unavailable: upstream 503 during shutdown'') ''shutdown''
   \<and> str_includes (toLowerCase ''cohere_unavailable: upstream 503 during shutdown'') ''503''
   \<and> invokeEdgeFunctionWithRetry ''query-docs'' 2
         (\<lambda>k. Resolved (None :: unit option) (Some ''cohere_unavailable: upstream 503 during shutdown'')) =
       (\<lparr>data = None, error = Some ''cohere_unavailable: upstream 503 during shutdown'', attempts = 1\<rparr>,
        [Invoked ''query-docs'' 1])"
  by (simp add: invokeEdgeFunctionWithRetry_def gateway_loop.simps isRetryableEdgeFunctionError_def
      toLowerCase_def lower_char_def)

subsection \<open>Evidence verifier\<close>

lemma normalizeUrlString_parsed:
  "normalizeUrlString P input \<noteq> [] \<Longrightarrow>
     \<exists>candidate protocol. P candidate = Some (protocol, normalizeUrlString P input)
        \<and> (protocol = ''http:'' \<or> protocol = ''https:'')"
proof -
  assume a: "normalizeUrlString P input \<noteq> []"
  define raw where "raw = trim input"
  define candidate1 where "candidate1 = (if prefix ''//'' raw then ''https:'' @ raw else raw)"
  define candidate where "candidate =
               (if \<not> prefix ''http://'' candidate1 \<and> \<not> prefix ''https://'' candidate1
                then (if prefix ''www.'' candidate1 then ''https://'' @ candidate1
                      else if bare_host candidate1 then ''https://'' @ candidate1
                      else candidate1)
                else candidate1)"
  have n: "normalizeUrlString P input =
     (if raw = [] then []
      else (case P candidate of
               None \<Rightarrow> []
             | Some (protocol, href) \<Rightarrow>
                 if protocol \<noteq> ''http:'' \<and> protocol \<noteq> ''https:'' then [] else href))"
    unfolding normalizeUrlString_def raw_def candidate1_def candidate_def Let_def ..
  obtain protocol href where p: "P candidate = Some (protocol, href)"
    using a unfolding n by (cases "P candidate") (auto split: if_splits)
  have "(protocol = ''http:'' \<or> protocol = ''https:'') \<and> href = normalizeUrlString P input"
    using a unfolding n p by (simp split: if_splits)
  with p show ?thesis by blast
qed

lemma example_normal_bare: "normalizeUrlString example_parser ''fda.gov'' = ''https://fda.gov''"
  by code_simp
lemma example_normal_absolute: "normalizeUrlString example_parser ''https://fda.gov/a'' = ''https://fda.gov/a''"
  by code_simp
lemma example_normal_ftp: "normalizeUrlString example_parser ''ftp://a.io'' = []"
  by code_simp

text \<open>
  C7. The probe marks a URL as existing exactly when the URL normalises to an http(s) address
  and the response to it has a status in 200-399 or one of 401, 403, 405, 429. Every other
  status, a failed or timed-out request, and a URL that does not normalise (blank, not
  parseable, or of another scheme) give \<open>ok = False\<close>. On a response the returned address is
  the response's own, the one the redirects ended at, normalised.
\<close>

theorem url_probe_verdict:
  "ok (checkUrlExists P net input) =
     (normalizeUrlString P input \<noteq> [] \<and>
      (\<exists>st res_url. net (normalizeUrlString P input) = Response st res_url \<and> accepted_status st))
   \<and> (normalizeUrlString P input \<noteq> [] \<longrightarrow>
        (\<exists>candidate protocol. P candidate = Some (protocol, normalizeUrlString P input)
           \<and> (protocol = ''http:'' \<or> protocol = ''https:'')))
   \<and> (\<forall>st res_url.
        normalizeUrlString P input \<noteq> [] \<and> net (normalizeUrlString P input) = Response st res_url
        \<and> res_url \<noteq> [] \<and> normalizeUrlString P res_url \<noteq> [] \<longrightarrow>
        final_url (checkUrlExists P net input) = normalizeUrlString P res_url)"
proof (intro conjI)
  show "ok (checkUrlExists P net input) =
     (normalizeUrlString P input \<noteq> [] \<and>
      (\<exists>st res_url. net (normalizeUrlString P input) = Response st res_url \<and> accepted_status st))"
    by (auto simp: checkUrlExists_def Let_def accepted_status_def split: fetch_outcome.splits)
  show "normalizeUrlString P input \<noteq> [] \<longrightarrow>
        (\<exists>candidate protocol. P candidate = Some (protocol, normalizeUrlString P input)
           \<and> (protocol = ''http:'' \<or> protocol = ''https:''))"
    using normalizeUrlString_parsed by blast
  show "\<forall>st res_url.
        normalizeUrlString P input \<noteq> [] \<and> net (normalizeUrlString P input) = Response st res_url
        \<and> res_url \<noteq> [] \<and> normalizeUrlString P res_url \<noteq> [] \<longrightarrow>
        final_url (checkUrlExists P net input) = normalizeUrlString P res_url"
    by (auto simp: checkUrlExists_def Let_def)
qed

theorem url_probe_verdict_witness:
  "ok (checkUrlExists example_parser (\<lambda>u. Response 403 ''https://fda.gov/a'') ''fda.gov'')
   \<and> final_url (checkUrlExists example_parser (\<lambda>u. Response 403 ''https://fda.gov/a'')
         ''fda.gov'') = ''https://fda.gov/a''
   \<and> \<not> ok (checkUrlExists example_parser (\<lambda>u. Response 404 u) ''fda.gov'')
   \<and> \<not> ok (checkUrlExists example_parser (\<lambda>u. FetchFailed) ''fda.gov'')
   \<and> \<not> ok (checkUrlExists example_parser (\<lambda>u. Response 200 u) ''ftp://a.io'')"
proof -
  note v = url_probe_verdict [of example_parser _ "''fda.gov''", unfolded example_normal_bare]
  have a: "ok (checkUrlExists example_parser (\<lambda>u. Response 403 ''https://fda.gov/a'') ''fda.gov'')"
    using v [of "\<lambda>u. Response 403 ''https://fda.gov/a''"] by (simp add: accepted_status_def)
  have b: "final_url (checkUrlExists example_parser (\<lambda>u. Response 403 ''https://fda.gov/a'')
         ''fda.gov'') = ''https://fda.gov/a''"
    using v [of "\<lambda>u. Response 403 ''https://fda.gov/a''"] example_normal_absolute by simp
  have c: "\<not> ok (checkUrlExists example_parser (\<lambda>u. Response 404 u) ''fda.gov'')"
    using v [of "\<lambda>u. Response 404 u"] by (simp add: accepted_status_def)
  have d: "\<not> ok (checkUrlExists example_parser (\<lambda>u. FetchFailed) ''fda.gov'')"
    using v [of "\<lambda>u. FetchFailed"] by simp
  have e: "\<not> ok (checkUrlExists example_parser (\<lambda>u. Response 200 u) ''ftp://a.io'')"
    using url_probe_verdict [of example_parser "\<lambda>u. Response 200 u" "''ftp://a.io''"] example_normal_ftp
    by simp
  from a b c d e show ?thesis by simp
qed

subsection \<open>Sources section\<close>

lemma ci_prefix_append: "ci_prefix lit x \<Longrightarrow> ci_prefix lit (x @ y)"
  by (simp add: ci_prefix_def toLowerCase_def prefix_prefix)

lemma ci_prefix_length: "ci_prefix lit x \<Longrightarrow> length lit \<le> length x"
  using prefix_length_le by (fastforce simp: ci_prefix_def toLowerCase_def)

lemma ws_then_newline_append: "ws_then_newline x \<Longrightarrow> ws_then_newline (x @ y)"
proof (cases "\<forall>c\<in>set x. is_ws c")
  case True
  then have eq: "takeWhile is_ws (x @ y) = x @ takeWhile is_ws y" and all: "takeWhile is_ws x = x"
    by (simp_all add: takeWhile_append2 takeWhile_eq_all_conv)
  assume "ws_then_newline x"
  then have "list_ex (\<lambda>c. c = CHR 0x0D \<or> c = CHR 0x0A) x"
    unfolding ws_then_newline_def all .
  then show ?thesis
    unfolding ws_then_newline_def eq by simp
next
  case False
  then obtain c where "c \<in> set x" "\<not> is_ws c" by blast
  then have "takeWhile is_ws (x @ y) = takeWhile is_ws x"
    by (rule takeWhile_append1)
  moreover assume "ws_then_newline x"
  ultimately show ?thesis by (simp add: ws_then_newline_def)
qed

lemma skip_ws_append:
  "dropWhile is_ws x \<noteq> [] \<Longrightarrow> dropWhile is_ws (x @ y) = dropWhile is_ws x @ y"
proof -
  assume "dropWhile is_ws x \<noteq> []"
  then obtain c where "c \<in> set x" "\<not> is_ws c"
    by (auto simp: dropWhile_eq_Nil_conv)
  then show ?thesis by (rule dropWhile_append1)
qed

lemma ci_prefix_nonempty: "ci_prefix lit x \<Longrightarrow> lit \<noteq> [] \<Longrightarrow> x \<noteq> []"
  by (auto simp: ci_prefix_def toLowerCase_def)

lemma sources_heading_here_append:
  assumes "sources_heading_here x"
  shows "sources_heading_here (x @ y)"
proof -
  define r where "r = dropWhile is_ws (drop 3 x)"
  define a where "a = dropWhile is_ws (drop 7 r)"
  define b where "b = dropWhile is_ws (drop 1 a)"
  from assms have pre: "prefix ''\<newline>##'' x"
    and alts: "(ci_prefix ''sources'' r \<and> prefix ''/'' a \<and> ci_prefix ''references'' b
                  \<and> ws_then_newline (drop 10 b))
               \<or> (ci_prefix ''sources'' r \<and> ws_then_newline (drop 7 r))
               \<or> (ci_prefix ''references'' r \<and> ws_then_newline (drop 10 r))"
    unfolding sources_heading_here_def r_def a_def b_def Let_def by blast+
  from pre have len: "3 \<le> length x" using prefix_length_le by fastforce
  from alts have rne: "r \<noteq> []" by (auto dest: ci_prefix_nonempty)
  have r': "dropWhile is_ws (drop 3 (x @ y)) = r @ y"
    using len rne by (simp add: r_def skip_ws_append)
  have pre': "prefix ''\<newline>##'' (x @ y)" using pre by (rule prefix_prefix)
  from alts consider
      (A) "ci_prefix ''sources'' r" "prefix ''/'' a" "ci_prefix ''references'' b"
          "ws_then_newline (drop 10 b)"
    | (B) "ci_prefix ''sources'' r" "ws_then_newline (drop 7 r)"
    | (C) "ci_prefix ''references'' r" "ws_then_newline (drop 10 r)"
    by blast
  then show ?thesis
  proof cases
    case A
    from A(1) have l7: "7 \<le> length r" using ci_prefix_length by fastforce
    from A(2) have ane: "a \<noteq> []" by auto
    have a': "dropWhile is_ws (drop 7 (r @ y)) = a @ y"
      using l7 ane by (simp add: a_def skip_ws_append)
    from A(3) have bne: "b \<noteq> []" by (auto dest: ci_prefix_nonempty)
    have b': "dropWhile is_ws (drop 1 (a @ y)) = b @ y"
      using ane bne by (cases a) (simp_all add: b_def skip_ws_append)
    from A(3) have l10: "10 \<le> length b" using ci_prefix_length by fastforce
    have "ci_prefix ''sources'' (r @ y)" "prefix ''/'' (a @ y)" "ci_prefix ''references'' (b @ y)"
      "ws_then_newline (drop 10 (b @ y))"
      using A l10 by (simp_all add: ci_prefix_append prefix_prefix ws_then_newline_append)
    then show ?thesis
      unfolding sources_heading_here_def Let_def r' a' b' using pre' by blast
  next
    case B
    from B(1) have l7: "7 \<le> length r" using ci_prefix_length by fastforce
    have "ci_prefix ''sources'' (r @ y)" "ws_then_newline (drop 7 (r @ y))"
      using B l7 by (simp_all add: ci_prefix_append ws_then_newline_append)
    then show ?thesis
      unfolding sources_heading_here_def Let_def r' using pre' by blast
  next
    case C
    from C(1) have l10: "10 \<le> length r" using ci_prefix_length by fastforce
    have "ci_prefix ''references'' (r @ y)" "ws_then_newline (drop 10 (r @ y))"
      using C l10 by (simp_all add: ci_prefix_append ws_then_newline_append)
    then show ?thesis
      unfolding sources_heading_here_def Let_def r' using pre' by blast
  qed
qed

lemma sources_heading_here_Nil [simp]: "\<not> sources_heading_here []"
  by (simp add: sources_heading_here_def)

lemma search_None_iff:
  "search_sources_heading t = None \<longleftrightarrow> (\<forall>i. \<not> sources_heading_here (drop i t))"
proof (induction t)
  case Nil
  then show ?case by simp
next
  case (Cons c cs)
  have "(\<forall>i. \<not> sources_heading_here (drop i (c # cs))) \<longleftrightarrow>
        (\<not> sources_heading_here (c # cs) \<and> (\<forall>i. \<not> sources_heading_here (drop i cs)))"
  proof
    assume h: "\<forall>i. \<not> sources_heading_here (drop i (c # cs))"
    have "\<not> sources_heading_here (c # cs)" using h [rule_format, of 0] by simp
    moreover have "\<not> sources_heading_here (drop i cs)" for i using h [rule_format, of "Suc i"] by simp
    ultimately show "\<not> sources_heading_here (c # cs) \<and> (\<forall>i. \<not> sources_heading_here (drop i cs))"
      by blast
  next
    assume h: "\<not> sources_heading_here (c # cs) \<and> (\<forall>i. \<not> sources_heading_here (drop i cs))"
    show "\<forall>i. \<not> sources_heading_here (drop i (c # cs))"
    proof
      fix i show "\<not> sources_heading_here (drop i (c # cs))"
        using h by (cases i) simp_all
    qed
  qed
  with Cons show ?case by simp
qed

lemma search_Some_first:
  "search_sources_heading t = Some n \<Longrightarrow>
     n < length t \<and> sources_heading_here (drop n t) \<and> (\<forall>j<n. \<not> sources_heading_here (drop j t))"
proof (induction t arbitrary: n)
  case Nil
  then show ?case by simp
next
  case (Cons c cs)
  show ?case
  proof (cases "sources_heading_here (c # cs)")
    case True
    with Cons.prems show ?thesis by simp
  next
    case False
    with Cons.prems obtain m where m: "search_sources_heading cs = Some m" "n = Suc m"
      by auto
    from Cons.IH [OF m(1)] have ih: "m < length cs" "sources_heading_here (drop m cs)"
      "\<forall>j<m. \<not> sources_heading_here (drop j cs)" by blast+
    have "\<not> sources_heading_here (drop j (c # cs))" if "j < n" for j
      using that False ih(3) m(2) by (cases j) simp_all
    with ih m(2) show ?thesis by simp
  qed
qed

lemma trim_is_substring: "\<exists>k m. trim s = take m (drop k s)"
proof -
  have "trimStart s = drop (length (takeWhile is_ws s)) s"
    by (simp add: trimStart_def dropWhile_eq_drop)
  moreover have "trimEnd u = take (length u - length (takeWhile is_ws (rev u))) u" for u
    by (simp add: trimEnd_def dropWhile_eq_drop rev_drop)
  ultimately show ?thesis unfolding trim_def by metis
qed

lemma heading_in_take: "sources_heading_here (take q v) \<Longrightarrow> sources_heading_here v"
  using sources_heading_here_append [of "take q v" "drop q v"] by (simp only: append_take_drop_id)

lemma heading_in_substring:
  assumes "sources_heading_here (drop i (take m (drop k s)))"
  shows "sources_heading_here (drop (k + i) s)"
proof -
  have "drop i (take m (drop k s)) = take (m - i) (drop (k + i) s)"
    by (simp add: drop_take add.commute)
  with assms have "sources_heading_here (take (m - i) (drop (k + i) s))" by simp
  then show ?thesis by (rule heading_in_take)
qed

lemma no_heading_in_trimmed_prefix:
  assumes "\<forall>j<n. \<not> sources_heading_here (drop j t)"
  shows "search_sources_heading (trim (take n t)) = None"
proof -
  obtain k m where km: "trim (take n t) = take m (drop k (take n t))"
    using trim_is_substring by blast
  have "\<not> sources_heading_here (drop i (trim (take n t)))" for i
  proof
    assume h: "sources_heading_here (drop i (trim (take n t)))"
    then have "sources_heading_here (drop (k + i) (take n t))"
      unfolding km by (rule heading_in_substring)
    then have "sources_heading_here (take (n - (k + i)) (drop (k + i) t))"
      by (simp add: drop_take)
    then have at: "sources_heading_here (drop (k + i) t)"
      by (rule heading_in_take)
    have "k + i < n"
    proof (rule ccontr)
      assume "\<not> k + i < n"
      then have "drop (k + i) (take n t) = []" by simp
      with \<open>sources_heading_here (drop (k + i) (take n t))\<close> show False by simp
    qed
    with assms at show False by simp
  qed
  then show ?thesis by (simp add: search_None_iff)
qed

lemma stripped_has_no_heading:
  "search_sources_heading (stripTrailingSourcesSection txt) = None"
proof (cases "search_sources_heading txt")
  case None
  then have "\<forall>j<length txt. \<not> sources_heading_here (drop j txt)"
    by (simp add: search_None_iff)
  then have "search_sources_heading (trim (take (length txt) txt)) = None"
    by (rule no_heading_in_trimmed_prefix)
  with None show ?thesis by (simp add: stripTrailingSourcesSection_def)
next
  case (Some n)
  then have "\<forall>j<n. \<not> sources_heading_here (drop j txt)"
    using search_Some_first by blast
  then have "search_sources_heading (trim (take n txt)) = None"
    by (rule no_heading_in_trimmed_prefix)
  with Some show ?thesis by (simp add: stripTrailingSourcesSection_def)
qed


lemma trim_Source [simp]: "trim ''Source'' = ''Source''"
  by (simp add: trim_def trimStart_def trimEnd_def is_ws_def)

lemma trim_Nil [simp]: "trim [] = []"
  by (simp add: trim_def trimStart_def trimEnd_def)

lemma source_entry_numbered: "source_entry k c = numbered_entry k c"
  by (cases "title c = []") (simp_all add: source_entry_def numbered_entry_def Let_def)

lemma map_enumerate_nth:
  "map (\<lambda>(i, c). f i c) (enumerate 0 cs) = map (\<lambda>k. f k (cs ! k)) [0..<length cs]"
  by (rule nth_equalityI) (simp_all add: nth_enumerate_eq)

lemma formatSourcesSection_entries:
  "formatSourcesSection cs =
     (if cs = []
      then ''\<newline>\<newline>## Sources / References\<newline>No sources were retrieved.\<newline>''
      else ''\<newline>\<newline>## Sources / References\<newline>''
             @ join ''\<newline>'' (map (\<lambda>k. numbered_entry k (cs ! k)) [0..<length cs])
             @ ''\<newline>'')"
proof -
  have "map (\<lambda>(i, c). source_entry i c) (enumerate 0 cs) =
        map (\<lambda>k. numbered_entry k (cs ! k)) [0..<length cs]"
    unfolding map_enumerate_nth by (simp add: source_entry_numbered)
  then show ?thesis by (simp add: formatSourcesSection_def Let_def)
qed


subsection \<open>The handler, stage by stage\<close>

lemma early_checks_is_error: "early_checks e req \<noteq> Some (Json200 out)"
  by (simp add: early_checks_def split: option.splits)

lemma no_sources_gate_is_error: "no_sources_gate req st \<noteq> Inl (Json200 out)"
  by (simp add: no_sources_gate_def)

lemma POST_success:
  assumes "POST e w req = (Json200 out, evs)"
  obtains st text0 lastError ev_gen ev_rest where
    "early_checks e req = None"
    "no_sources_gate req (fst (retrieval req w)) = Inr st"
    "generate_loop (generation_reply w) 0 (tried_candidates e) [] = (text0, lastError, ev_gen)"
    "text0 \<noteq> []"
    "finish e req w st
       (with_sources_and_notice (citations st) (internetFallbackUsed st) (contentSourceNotice st) text0)
     = (Json200 out, ev_rest)"
    "evs = snd (retrieval req w) @ ev_gen @ ev_rest"
proof -
  from assms have early: "early_checks e req = None"
    using early_checks_is_error [of e req out]
    by (cases "early_checks e req") (auto simp: POST_def)
  obtain st1 ev1 where r: "retrieval req w = (st1, ev1)" by (cases "retrieval req w")
  from assms early r obtain st where gate: "no_sources_gate req st1 = Inr st"
    using no_sources_gate_is_error [of req st1 out]
    by (cases "no_sources_gate req st1") (auto simp: POST_def)
  obtain text0 lastError ev_gen where
    g: "generate_loop (generation_reply w) 0 (tried_candidates e) [] = (text0, lastError, ev_gen)"
    by (cases "generate_loop (generation_reply w) 0 (tried_candidates e) []") auto
  from assms early r gate g have ne: "text0 \<noteq> []"
    by (auto simp: POST_def split: if_splits)
  obtain resp ev_rest where
    f: "finish e req w st
       (with_sources_and_notice (citations st) (internetFallbackUsed st) (contentSourceNotice st) text0)
     = (resp, ev_rest)"
    by (cases "finish e req w st
       (with_sources_and_notice (citations st) (internetFallbackUsed st) (contentSourceNotice st) text0)")
  from assms early r gate g ne f have "resp = Json200 out" "evs = ev1 @ ev_gen @ ev_rest"
    by (auto simp: POST_def)
  with that [OF early _ g ne] r gate f show thesis by simp
qed

lemma finish_eq:
  "finish e req w st body0 =
     (Json200 (outputForClient
         (baseOutput e req st (fst (swarm_stage e req w st)) (fst (snd (rewrite_pass e req w st body0))))
         (labelled_body e req st (fst (swarm_stage e req w st)) (fst (rewrite_pass e req w st body0)))
         (workflow_blocked e (fst (swarm_stage e req w st)))
         (inserted_id w)),
      snd (snd (rewrite_pass e req w st body0)) @ snd (swarm_stage e req w st) @
      InsertDraft (outputForDb
           (baseOutput e req st (fst (swarm_stage e req w st)) (fst (snd (rewrite_pass e req w st body0))))
           (labelled_body e req st (fst (swarm_stage e req w st)) (fst (rewrite_pass e req w st body0)))
           (workflow_blocked e (fst (swarm_stage e req w st))))
         (trustScore (fst (swarm_stage e req w st)))
         (requiresReview e (fst (swarm_stage e req w st)))
      # (if inserted_id w \<noteq> [] then [InsertAgents (agentInserts (fst (swarm_stage e req w st)))] else []))"
  by (simp add: finish_def Let_def split: prod.splits)

subsection \<open>The calls each stage makes\<close>

lemma retrieve_private_events:
  "set (snd (retrieve_private w)) \<subseteq> range Gateway \<union> {PrivateTextSearch}"
  by (auto simp: retrieve_private_def Let_def split: prod.splits sum.splits if_splits)

lemma internet_fallback_private [simp]: "internet_fallback True w st = (st, [])"
  by (simp add: internet_fallback_def)

lemma retrieval_private:
  "isPrivateMode req \<Longrightarrow>
     retrieval req w =
       ((fst (retrieve_private w))\<lparr>context_text := take 8000 (context_text (fst (retrieve_private w)))\<rparr>,
        snd (retrieve_private w))"
  by (simp add: retrieval_def Let_def split: prod.splits)

lemma generate_loop_events:
  "set (snd (snd (generate_loop reply k models lastError))) \<subseteq> range Generate"
  by (induction reply k models lastError rule: generate_loop.induct)
    (auto split: text_call.splits prod.splits if_splits)

lemma rewrite_pass_events:
  "set (snd (snd (rewrite_pass e req w st b))) \<subseteq> range Rewrite"
  by (simp add: rewrite_pass_def Let_def)

lemma swarm_stage_events:
  "set (snd (swarm_stage e req w st)) \<subseteq> range AgentCall"
  by (auto simp: swarm_stage_def swarm_calls_def)

lemma finish_events:
  "set (snd (finish e req w st b)) \<subseteq>
     range Rewrite \<union> range AgentCall \<union> range InsertAgents \<union> {ev. \<exists>d t r. ev = InsertDraft d t r}"
  using rewrite_pass_events [of e req w st b] swarm_stage_events [of e req w st]
  unfolding finish_eq by auto

lemma POST_events:
  "set (snd (POST e w req)) \<subseteq>
     set (snd (retrieval req w)) \<union> range Generate \<union> range Rewrite \<union> range AgentCall
       \<union> range InsertAgents \<union> {ev. \<exists>d t r. ev = InsertDraft d t r}"
proof -
  obtain st1 ev1 where r: "retrieval req w = (st1, ev1)" by (cases "retrieval req w")
  obtain text0 lastError ev_gen where
    g: "generate_loop (generation_reply w) 0 (tried_candidates e) [] = (text0, lastError, ev_gen)"
    by (cases "generate_loop (generation_reply w) 0 (tried_candidates e) []") auto
  have gen: "set ev_gen \<subseteq> range Generate"
    using generate_loop_events [of "generation_reply w" 0 "tried_candidates e" "[]"] g by simp
  show ?thesis
  proof (cases "early_checks e req")
    case (Some resp)
    then show ?thesis by (simp add: POST_def)
  next
    case None
    show ?thesis
    proof (cases "no_sources_gate req st1")
      case (Inl resp)
      with None r have "snd (POST e w req) = ev1" by (simp add: POST_def)
      with r show ?thesis by auto
    next
      case (Inr st)
      let ?b0 = "with_sources_and_notice (citations st) (internetFallbackUsed st) (contentSourceNotice st) text0"
      obtain resp ev_rest where f: "finish e req w st ?b0 = (resp, ev_rest)"
        by (cases "finish e req w st ?b0")
      have rest: "set ev_rest \<subseteq>
         range Rewrite \<union> range AgentCall \<union> range InsertAgents \<union> {ev. \<exists>d t r. ev = InsertDraft d t r}"
        using finish_events [of e req w st ?b0] f by simp
      have "snd (POST e w req) = (if text0 = [] then ev1 @ ev_gen else ev1 @ ev_gen @ ev_rest)"
        using None r Inr g f by (simp add: POST_def)
      with gen rest r show ?thesis by auto
    qed
  qed
qed

lemma example_late_blocked:
  "(case POST example_env (example_world\<lparr>elapsed_at_swarm := 75000\<rparr>) example_request of
      (Json200 out, evs) \<Rightarrow> blocked out
    | (JsonError a b c d, evs) \<Rightarrow> False)"
  by code_simp

lemma swarm_stage_cases:
  "swarm_stage e req w st =
     (if elapsed_at_swarm w < 70000
      then (validation_swarm (trustThreshold e) (mode_text req) (internetFallbackUsed st) (agent_replies w),
            swarm_calls (mode_text req) (internetFallbackUsed st))
      else (skipped_swarm, []))"
  by (simp add: swarm_stage_def remainingMs_def)

subsection \<open>The text the final body is made of\<close>

lemma internet_fallback_events:
  "set (snd (internet_fallback private w st)) \<subseteq> {InternetSearch}"
  by (auto simp: internet_fallback_def Let_def split: sum.splits if_splits)

lemma retrieval_events:
  "set (snd (retrieval req w)) \<subseteq> range Gateway \<union> {PrivateTextSearch, PublicRetrieval, InternetSearch}"
proof -
  obtain st1 ev1 where a: "(if isPrivateMode req then retrieve_private w else retrieve_public w) = (st1, ev1)"
    by (cases "if isPrivateMode req then retrieve_private w else retrieve_public w")
  obtain st2 ev2 where b: "internet_fallback (isPrivateMode req) w st1 = (st2, ev2)"
    by (cases "internet_fallback (isPrivateMode req) w st1")
  have ev: "snd (retrieval req w) = ev1 @ ev2"
    unfolding retrieval_def a by (simp add: b)
  have "ev1 = snd (retrieve_private w) \<or> ev1 = [PublicRetrieval]"
    using a by (cases "isPrivateMode req") (auto simp: retrieve_public_def)
  then have one: "set ev1 \<subseteq> range Gateway \<union> {PrivateTextSearch, PublicRetrieval, InternetSearch}"
    using retrieve_private_events [of w] by auto
  have two: "set ev2 \<subseteq> {InternetSearch}"
    using internet_fallback_events [of "isPrivateMode req" w st1] b by simp
  from one two show ?thesis unfolding ev by auto
qed

lemma reply_text_TextOk: "callOpenRouterText r = TextOk t \<Longrightarrow> reply_text r = t"
  by (simp add: reply_text_def)

lemma reply_text_TextFailed: "callOpenRouterText r = TextFailed x \<Longrightarrow> reply_text r = []"
  by (simp add: reply_text_def)

text \<open>The generated text is the first reply with text among the candidates tried.\<close>

lemma generate_loop_first:
  "generate_loop reply k ms le = (t, le', evs) \<Longrightarrow> t \<noteq> [] \<Longrightarrow>
     \<exists>j. k \<le> j \<and> j < k + length ms \<and> t = reply_text (reply j)
       \<and> (\<forall>i. k \<le> i \<and> i < j \<longrightarrow> reply_text (reply i) = [])"
proof (induction ms arbitrary: k le t le' evs)
  case Nil
  then show ?case by simp
next
  case (Cons m ms)
  have later: "\<exists>j. k \<le> j \<and> j < k + length (m # ms) \<and> t = reply_text (reply j)
       \<and> (\<forall>i. k \<le> i \<and> i < j \<longrightarrow> reply_text (reply i) = [])"
    if none: "reply_text (reply k) = []"
      and rest: "generate_loop reply (Suc k) ms le2 = (t, e2, ev2)" for le2 e2 ev2
  proof -
    from Cons.IH [OF rest Cons.prems(2)] obtain j where j: "Suc k \<le> j" "j < Suc k + length ms"
      "t = reply_text (reply j)" and before: "\<forall>i. Suc k \<le> i \<and> i < j \<longrightarrow> reply_text (reply i) = []"
      by blast
    have "\<forall>i. k \<le> i \<and> i < j \<longrightarrow> reply_text (reply i) = []"
    proof (intro allI impI)
      fix i assume i: "k \<le> i \<and> i < j"
      show "reply_text (reply i) = []"
      proof (cases "i = k")
        case True
        with none show ?thesis by simp
      next
        case False
        with i have "Suc k \<le> i \<and> i < j" by simp
        with before show ?thesis by blast
      qed
    qed
    with j show ?thesis by (intro exI [of _ j]) simp
  qed
  show ?case
  proof (cases "callOpenRouterText (reply k)")
    case (TextFailed reason)
    then have none: "reply_text (reply k) = []" by (rule reply_text_TextFailed)
    obtain b e2 ev2 where g: "generate_loop reply (Suc k) ms reason = (b, e2, ev2)"
      by (cases "generate_loop reply (Suc k) ms reason") auto
    with Cons.prems(1) TextFailed have "b = t" by simp
    with g have "generate_loop reply (Suc k) ms reason = (t, e2, ev2)" by simp
    with none show ?thesis by (rule later)
  next
    case (TextOk tx)
    then have rt: "reply_text (reply k) = tx" by (rule reply_text_TextOk)
    show ?thesis
    proof (cases "tx = []")
      case True
      obtain b e2 ev2 where g: "generate_loop reply (Suc k) ms le = (b, e2, ev2)"
        by (cases "generate_loop reply (Suc k) ms le") auto
      with Cons.prems(1) TextOk True have "b = t" by simp
      with g have "generate_loop reply (Suc k) ms le = (t, e2, ev2)" by simp
      with rt True show ?thesis by (intro later) simp_all
    next
      case False
      with Cons.prems(1) TextOk have "tx = t" by simp
      with rt show ?thesis by (intro exI [of _ k]) auto
    qed
  qed
qed

lemma accept_rewrite_eq:
  "accept_rewrite st (callOpenRouterText r) cur =
     (if reply_text r \<noteq> []
      then (with_sources_and_notice (citations st) (internetFallbackUsed st) (contentSourceNotice st)
              (reply_text r), True)
      else cur)"
  by (cases "callOpenRouterText r") (simp_all add: accept_rewrite_def reply_text_def)

text \<open>The rewrite passes in one view: the calls made, and the last reply with text, if any,
  taking the place of the draft.\<close>

lemma rewrite_pass_eq:
  "rewrite_pass e req w st b =
     (if shouldRewrite e req w then
        (if humanizeLevelText (req_humanizeLevel req) = ''strong'' \<and> remainingMs (elapsed_at_strong w) > 20000
         then
           (if reply_text (rewrite_strong_reply w) \<noteq> []
            then with_sources_and_notice (citations st) (internetFallbackUsed st) (contentSourceNotice st)
                   (reply_text (rewrite_strong_reply w))
            else if reply_text (rewrite_standard_reply w) \<noteq> []
            then with_sources_and_notice (citations st) (internetFallbackUsed st) (contentSourceNotice st)
                   (reply_text (rewrite_standard_reply w))
            else b,
            reply_text (rewrite_strong_reply w) \<noteq> [] \<or> reply_text (rewrite_standard_reply w) \<noteq> [],
            [Rewrite ''rewrite_standard'', Rewrite ''rewrite_strong''])
         else
           (if reply_text (rewrite_standard_reply w) \<noteq> []
            then with_sources_and_notice (citations st) (internetFallbackUsed st) (contentSourceNotice st)
                   (reply_text (rewrite_standard_reply w))
            else b,
            reply_text (rewrite_standard_reply w) \<noteq> [],
            [Rewrite ''rewrite_standard'']))
      else (b, False, []))"
  by (simp add: rewrite_pass_def accept_rewrite_eq Let_def)

lemma rewrite_pass_final:
  "fst (rewrite_pass e req w st
          (with_sources_and_notice (citations st) (internetFallbackUsed st) (contentSourceNotice st) t0)) =
     with_sources_and_notice (citations st) (internetFallbackUsed st) (contentSourceNotice st)
       (if shouldRewrite e req w \<and> humanizeLevelText (req_humanizeLevel req) = ''strong''
           \<and> remainingMs (elapsed_at_strong w) > 20000 \<and> reply_text (rewrite_strong_reply w) \<noteq> []
        then reply_text (rewrite_strong_reply w)
        else if shouldRewrite e req w \<and> reply_text (rewrite_standard_reply w) \<noteq> []
        then reply_text (rewrite_standard_reply w)
        else t0)"
  by (simp add: rewrite_pass_eq)

lemma rewrite_pass_humanized:
  "fst (snd (rewrite_pass e req w st b)) \<longleftrightarrow>
     shouldRewrite e req w
     \<and> (reply_text (rewrite_standard_reply w) \<noteq> []
        \<or> (humanizeLevelText (req_humanizeLevel req) = ''strong''
            \<and> remainingMs (elapsed_at_strong w) > 20000 \<and> reply_text (rewrite_strong_reply w) \<noteq> []))"
  by (auto simp: rewrite_pass_eq)

lemma rewrite_pass_calls:
  "Rewrite p \<in> set (snd (snd (rewrite_pass e req w st b))) \<longleftrightarrow>
     shouldRewrite e req w
     \<and> (p = ''rewrite_standard''
        \<or> (p = ''rewrite_strong'' \<and> humanizeLevelText (req_humanizeLevel req) = ''strong''
            \<and> remainingMs (elapsed_at_strong w) > 20000))"
  by (auto simp: rewrite_pass_eq)

text \<open>
  A successful request in one view. The text \<open>t\<close> the body is made of is the reply of the
  last rewrite call that gave text, and else the first generation reply with text; the
  full body is the generation notice and then the trimmed draft built from \<open>t\<close>; it goes to
  the persisted record, and to the client's \<open>body\<close> or \<open>review_body\<close>.
\<close>

lemma POST_final:
  assumes "POST e w req = (Json200 out, evs)"
  obtains k t db trust review where
    "k < length (tried_candidates e)"
    "reply_text (generation_reply w k) \<noteq> []"
    "\<forall>i<k. reply_text (generation_reply w i) = []"
    "t = (if shouldRewrite e req w \<and> humanizeLevelText (req_humanizeLevel req) = ''strong''
             \<and> remainingMs (elapsed_at_strong w) > 20000 \<and> reply_text (rewrite_strong_reply w) \<noteq> []
          then reply_text (rewrite_strong_reply w)
          else if shouldRewrite e req w \<and> reply_text (rewrite_standard_reply w) \<noteq> []
          then reply_text (rewrite_standard_reply w)
          else reply_text (generation_reply w k))"
    "InsertDraft db trust review \<in> set evs"
    "db_body db =
       buildGenerationNotice
         (if isPrivateMode req then ''Private SOP context''
          else if internet_fallback_used out then ''Internet fallback'' else ''Universe-based'')
         (if workflow_status out = ''review'' then ''Needs manual review'' else ''Validated'')
       @ trim (with_sources_and_notice (out_citations out) (internet_fallback_used out)
                 (content_source_notice out) t)"
    "db_blocked db = blocked out"
    "body out = (if blocked out then [] else db_body db)"
    "review_body out = (if blocked out then db_body db else [])"
    "humanized out \<longleftrightarrow>
       shouldRewrite e req w
       \<and> (reply_text (rewrite_standard_reply w) \<noteq> []
          \<or> (humanizeLevelText (req_humanizeLevel req) = ''strong''
              \<and> remainingMs (elapsed_at_strong w) > 20000 \<and> reply_text (rewrite_strong_reply w) \<noteq> []))"
    "\<forall>p. Rewrite p \<in> set evs \<longleftrightarrow>
       shouldRewrite e req w
       \<and> (p = ''rewrite_standard''
          \<or> (p = ''rewrite_strong'' \<and> humanizeLevelText (req_humanizeLevel req) = ''strong''
              \<and> remainingMs (elapsed_at_strong w) > 20000))"
proof -
  from assms obtain st text0 lastError ev_gen ev_rest where
    g: "generate_loop (generation_reply w) 0 (tried_candidates e) [] = (text0, lastError, ev_gen)"
    and ne: "text0 \<noteq> []"
    and f: "finish e req w st
       (with_sources_and_notice (citations st) (internetFallbackUsed st) (contentSourceNotice st) text0)
     = (Json200 out, ev_rest)"
    and evs: "evs = snd (retrieval req w) @ ev_gen @ ev_rest"
    by (rule POST_success)
  from generate_loop_first [OF g ne] obtain k where k: "k < length (tried_candidates e)"
    and text0: "text0 = reply_text (generation_reply w k)"
    and first: "\<forall>i<k. reply_text (generation_reply w i) = []"
    by auto
  define t where "t = (if shouldRewrite e req w \<and> humanizeLevelText (req_humanizeLevel req) = ''strong''
             \<and> remainingMs (elapsed_at_strong w) > 20000 \<and> reply_text (rewrite_strong_reply w) \<noteq> []
          then reply_text (rewrite_strong_reply w)
          else if shouldRewrite e req w \<and> reply_text (rewrite_standard_reply w) \<noteq> []
          then reply_text (rewrite_standard_reply w)
          else reply_text (generation_reply w k))"
  let ?b0 = "with_sources_and_notice (citations st) (internetFallbackUsed st) (contentSourceNotice st) text0"
  define rp where "rp = rewrite_pass e req w st ?b0"
  define swarm where "swarm = fst (swarm_stage e req w st)"
  define base where "base = baseOutput e req st swarm (fst (snd rp))"
  define full where "full = labelled_body e req st swarm (fst rp)"
  define db where "db = outputForDb base full (workflow_blocked e swarm)"
  from f have out: "out = outputForClient base full (workflow_blocked e swarm) (inserted_id w)"
    and rest: "ev_rest = snd (snd rp) @ snd (swarm_stage e req w st) @
        InsertDraft db (trustScore swarm) (requiresReview e swarm)
        # (if inserted_id w \<noteq> [] then [InsertAgents (agentInserts swarm)] else [])"
    unfolding finish_eq rp_def swarm_def base_def full_def db_def by simp_all
  have fields: "out_citations out = citations st" "internet_fallback_used out = internetFallbackUsed st"
    "content_source_notice out = contentSourceNotice st" "workflow_status out = workflowStatus e swarm"
    "humanized out = fst (snd rp)" "blocked out = workflow_blocked e swarm"
    "body out = (if workflow_blocked e swarm then [] else full)"
    "review_body out = (if workflow_blocked e swarm then full else [])"
    unfolding out by (simp_all add: outputForClient_def base_output.extend_def base_def baseOutput_def)
  have dbf: "db_body db = full" "db_blocked db = workflow_blocked e swarm"
    by (simp_all add: db_def outputForDb_def base_output.extend_def)
  have review: "(workflow_status out = ''review'') = requiresReview e swarm"
    by (simp add: fields workflowStatus_def)
  have "fst rp = with_sources_and_notice (citations st) (internetFallbackUsed st) (contentSourceNotice st) t"
    unfolding rp_def text0 t_def by (rule rewrite_pass_final)
  then have body: "full =
       buildGenerationNotice
         (if isPrivateMode req then ''Private SOP context''
          else if internet_fallback_used out then ''Internet fallback'' else ''Universe-based'')
         (if workflow_status out = ''review'' then ''Needs manual review'' else ''Validated'')
       @ trim (with_sources_and_notice (out_citations out) (internet_fallback_used out)
                 (content_source_notice out) t)"
    unfolding full_def labelled_body_def review fields(1,2,3) by simp
  have ins: "InsertDraft db (trustScore swarm) (requiresReview e swarm) \<in> set evs"
    unfolding evs rest by simp
  have hum: "humanized out \<longleftrightarrow>
       shouldRewrite e req w
       \<and> (reply_text (rewrite_standard_reply w) \<noteq> []
          \<or> (humanizeLevelText (req_humanizeLevel req) = ''strong''
              \<and> remainingMs (elapsed_at_strong w) > 20000 \<and> reply_text (rewrite_strong_reply w) \<noteq> []))"
    unfolding fields rp_def by (rule rewrite_pass_humanized)
  have calls: "\<forall>p. Rewrite p \<in> set evs \<longleftrightarrow>
       shouldRewrite e req w
       \<and> (p = ''rewrite_standard''
          \<or> (p = ''rewrite_strong'' \<and> humanizeLevelText (req_humanizeLevel req) = ''strong''
              \<and> remainingMs (elapsed_at_strong w) > 20000))"
  proof
    fix p
    have "Rewrite p \<notin> set (snd (retrieval req w))"
      using retrieval_events [of req w] by auto
    moreover have "Rewrite p \<notin> set ev_gen"
      using generate_loop_events [of "generation_reply w" 0 "tried_candidates e" "[]"] g by auto
    moreover have "Rewrite p \<notin> set (snd (swarm_stage e req w st))"
      using swarm_stage_events [of e req w st] by auto
    ultimately have "Rewrite p \<in> set evs \<longleftrightarrow> Rewrite p \<in> set (snd (snd rp))"
      unfolding evs rest by simp
    then show "Rewrite p \<in> set evs \<longleftrightarrow>
       shouldRewrite e req w
       \<and> (p = ''rewrite_standard''
          \<or> (p = ''rewrite_strong'' \<and> humanizeLevelText (req_humanizeLevel req) = ''strong''
              \<and> remainingMs (elapsed_at_strong w) > 20000))"
      unfolding rp_def rewrite_pass_calls .
  qed
  show thesis
  proof (rule that [of k t db "trustScore swarm" "requiresReview e swarm"])
    show "k < length (tried_candidates e)" by (rule k)
    show "reply_text (generation_reply w k) \<noteq> []" using ne text0 by simp
    show "\<forall>i<k. reply_text (generation_reply w i) = []" by (rule first)
    show "InsertDraft db (trustScore swarm) (requiresReview e swarm) \<in> set evs" by (rule ins)
    show "db_blocked db = blocked out" by (simp add: dbf fields)
    show "body out = (if blocked out then [] else db_body db)" by (simp add: dbf fields)
    show "review_body out = (if blocked out then db_body db else [])" by (simp add: dbf fields)
  qed (rule t_def, unfold dbf(1), rule body, rule hum, rule calls)
qed

text \<open>The same with the text only known to be a reply of one of the models.\<close>

lemma POST_body:
  assumes "POST e w req = (Json200 out, evs)"
  obtains t db trust review where
    "t \<noteq> []"
    "(\<exists>k. t = reply_text (generation_reply w k)) \<or> t = reply_text (rewrite_standard_reply w)
       \<or> t = reply_text (rewrite_strong_reply w)"
    "InsertDraft db trust review \<in> set evs"
    "db_body db =
       buildGenerationNotice
         (if isPrivateMode req then ''Private SOP context''
          else if internet_fallback_used out then ''Internet fallback'' else ''Universe-based'')
         (if workflow_status out = ''review'' then ''Needs manual review'' else ''Validated'')
       @ trim (with_sources_and_notice (out_citations out) (internet_fallback_used out)
                 (content_source_notice out) t)"
    "db_blocked db = blocked out"
    "body out = (if blocked out then [] else db_body db)"
    "review_body out = (if blocked out then db_body db else [])"
proof -
  from assms obtain k t db trust review where
    gen: "reply_text (generation_reply w k) \<noteq> []"
    and t: "t = (if shouldRewrite e req w \<and> humanizeLevelText (req_humanizeLevel req) = ''strong''
             \<and> remainingMs (elapsed_at_strong w) > 20000 \<and> reply_text (rewrite_strong_reply w) \<noteq> []
          then reply_text (rewrite_strong_reply w)
          else if shouldRewrite e req w \<and> reply_text (rewrite_standard_reply w) \<noteq> []
          then reply_text (rewrite_standard_reply w)
          else reply_text (generation_reply w k))"
    and rest: "InsertDraft db trust review \<in> set evs"
      "db_body db =
       buildGenerationNotice
         (if isPrivateMode req then ''Private SOP context''
          else if internet_fallback_used out then ''Internet fallback'' else ''Universe-based'')
         (if workflow_status out = ''review'' then ''Needs manual review'' else ''Validated'')
       @ trim (with_sources_and_notice (out_citations out) (internet_fallback_used out)
                 (content_source_notice out) t)"
      "db_blocked db = blocked out"
      "body out = (if blocked out then [] else db_body db)"
      "review_body out = (if blocked out then db_body db else [])"
    by (rule POST_final)
  from t gen have ne: "t \<noteq> []" by (simp split: if_splits)
  from t have "t = reply_text (generation_reply w k) \<or> t = reply_text (rewrite_standard_reply w)
       \<or> t = reply_text (rewrite_strong_reply w)"
    by (simp split: if_splits)
  then have src: "(\<exists>k. t = reply_text (generation_reply w k)) \<or> t = reply_text (rewrite_standard_reply w)
       \<or> t = reply_text (rewrite_strong_reply w)"
    by blast
  from ne src rest show thesis by (rule that)
qed

subsection \<open>Private mode without sources\<close>

text \<open>
  C2. In private mode the handler never makes the internet search. When the early checks
  pass and the citation list is empty after the private index and the private text search,
  the response is 422 with the error code \<open>no_sources\<close>, and the only calls made are those of
  the retrieval itself (the gateway's attempts and sleeps, the text search): no generation,
  rewrite or validation call.
\<close>

theorem private_mode_without_sources_rejected:
  "(isPrivateMode req \<longrightarrow> InternetSearch \<notin> set (snd (POST e w req)))
   \<and> (isPrivateMode req \<and> early_checks e req = None \<and> citations (fst (retrieve_private w)) = [] \<longrightarrow>
        fst (POST e w req) =
          JsonError 422 ''no_sources'' (Some ''No valid sources found from retrieved RAG documents.'')
            (retrievalError (fst (retrieve_private w)))
        \<and> set (snd (POST e w req)) \<subseteq> range Gateway \<union> {PrivateTextSearch})"
proof (intro conjI impI)
  assume p: "isPrivateMode req"
  have "set (snd (retrieval req w)) \<subseteq> range Gateway \<union> {PrivateTextSearch}"
    using retrieve_private_events [of w] by (simp add: retrieval_private [OF p])
  with POST_events [of e w req] show "InternetSearch \<notin> set (snd (POST e w req))"
    by auto
next
  assume a: "isPrivateMode req \<and> early_checks e req = None \<and> citations (fst (retrieve_private w)) = []"
  then have p: "isPrivateMode req" and early: "early_checks e req = None"
    and none: "citations (fst (retrieve_private w)) = []" by simp_all
  let ?st = "(fst (retrieve_private w))\<lparr>context_text := take 8000 (context_text (fst (retrieve_private w)))\<rparr>"
  have gate: "no_sources_gate req ?st =
      Inl (JsonError 422 ''no_sources'' (Some ''No valid sources found from retrieved RAG documents.'')
            (retrievalError (fst (retrieve_private w))))"
    using p none by (simp add: no_sources_gate_def)
  have post: "POST e w req =
      (JsonError 422 ''no_sources'' (Some ''No valid sources found from retrieved RAG documents.'')
            (retrievalError (fst (retrieve_private w))), snd (retrieve_private w))"
    using early gate by (simp add: POST_def retrieval_private [OF p])
  show "fst (POST e w req) =
          JsonError 422 ''no_sources'' (Some ''No valid sources found from retrieved RAG documents.'')
            (retrievalError (fst (retrieve_private w)))"
    by (simp add: post)
  show "set (snd (POST e w req)) \<subseteq> range Gateway \<union> {PrivateTextSearch}"
    using retrieve_private_events [of w] by (simp add: post)
qed

theorem private_mode_without_sources_rejected_witness:
  "fst (POST example_env (example_world\<lparr>priv_invoke := (\<lambda>k. TimedOut)\<rparr>) example_request) =
     JsonError 422 ''no_sources'' (Some ''No valid sources found from retrieved RAG documents.'')
       (Some ''query-docs_timeout'')
   \<and> set (snd (POST example_env (example_world\<lparr>priv_invoke := (\<lambda>k. TimedOut)\<rparr>) example_request))
        \<subseteq> range Gateway \<union> {PrivateTextSearch}
   \<and> InternetSearch \<notin> set (snd (POST example_env (example_world\<lparr>priv_invoke := (\<lambda>k. TimedOut)\<rparr>)
        example_request))"
proof -
  let ?w = "example_world\<lparr>priv_invoke := (\<lambda>k. TimedOut)\<rparr>"
  have p: "isPrivateMode example_request"
    by (simp add: isPrivateMode_def example_request_def)
  have early: "early_checks example_env example_request = None"
    by code_simp
  have none: "citations (fst (retrieve_private ?w)) = []"
    by code_simp
  have err: "retrievalError (fst (retrieve_private ?w)) = Some ''query-docs_timeout''"
    by code_simp
  from private_mode_without_sources_rejected [of example_request example_env ?w] p early none err
  show ?thesis by simp
qed

subsection \<open>Client payload and persisted record\<close>

text \<open>
  C5. On every successful request the full body is the generation notice (content source
  and review status) followed by the trimmed final draft. The draft is built from the text
  \<open>t\<close> of the last rewrite call that gave text or, when there is none, of the first
  generation call that gave text: \<open>t\<close> without its sources section, the rendered sources
  section and, where it was added, the content source notice. The record handed to the
  draft insert always holds this full body, which is never empty, and the same \<open>blocked\<close>
  flag as the client payload. When \<open>blocked\<close> is true the client's \<open>body\<close> is empty and its
  \<open>review_body\<close> is the full body; when it is false the client's \<open>body\<close> is the full body
  and \<open>review_body\<close> is empty.
\<close>

theorem blocked_body_withheld:
  assumes "POST e w req = (Json200 out, evs)"
  shows "\<exists>k t full db trust review.
           k < length (tried_candidates e)
           \<and> reply_text (generation_reply w k) \<noteq> []
           \<and> (\<forall>i<k. reply_text (generation_reply w i) = [])
           \<and> t = (if shouldRewrite e req w \<and> humanizeLevelText (req_humanizeLevel req) = ''strong''
                      \<and> remainingMs (elapsed_at_strong w) > 20000
                      \<and> reply_text (rewrite_strong_reply w) \<noteq> []
                   then reply_text (rewrite_strong_reply w)
                   else if shouldRewrite e req w \<and> reply_text (rewrite_standard_reply w) \<noteq> []
                   then reply_text (rewrite_standard_reply w)
                   else reply_text (generation_reply w k))
           \<and> full =
               buildGenerationNotice
                 (if isPrivateMode req then ''Private SOP context''
                  else if internet_fallback_used out then ''Internet fallback'' else ''Universe-based'')
                 (if workflow_status out = ''review'' then ''Needs manual review'' else ''Validated'')
               @ trim
                   (let draft = stripTrailingSourcesSection t @ formatSourcesSection (out_citations out)
                    in if internet_fallback_used out \<and> \<not> has_notice_heading draft
                       then draft @ ''\<newline>\<newline>## Content Source Notice\<newline>''
                              @ content_source_notice out @ ''\<newline>''
                       else draft)
           \<and> full \<noteq> []
           \<and> InsertDraft db trust review \<in> set evs
           \<and> db_body db = full
           \<and> db_blocked db = blocked out
           \<and> body out = (if blocked out then [] else full)
           \<and> review_body out = (if blocked out then full else [])"
proof -
  from assms obtain k t db trust review where
    k: "k < length (tried_candidates e)"
      "reply_text (generation_reply w k) \<noteq> []"
      "\<forall>i<k. reply_text (generation_reply w i) = []"
    and t: "t = (if shouldRewrite e req w \<and> humanizeLevelText (req_humanizeLevel req) = ''strong''
             \<and> remainingMs (elapsed_at_strong w) > 20000 \<and> reply_text (rewrite_strong_reply w) \<noteq> []
          then reply_text (rewrite_strong_reply w)
          else if shouldRewrite e req w \<and> reply_text (rewrite_standard_reply w) \<noteq> []
          then reply_text (rewrite_standard_reply w)
          else reply_text (generation_reply w k))"
    and ins: "InsertDraft db trust review \<in> set evs"
    and full: "db_body db =
       buildGenerationNotice
         (if isPrivateMode req then ''Private SOP context''
          else if internet_fallback_used out then ''Internet fallback'' else ''Universe-based'')
         (if workflow_status out = ''review'' then ''Needs manual review'' else ''Validated'')
       @ trim (with_sources_and_notice (out_citations out) (internet_fallback_used out)
                 (content_source_notice out) t)"
    and flags: "db_blocked db = blocked out"
      "body out = (if blocked out then [] else db_body db)"
      "review_body out = (if blocked out then db_body db else [])"
    and hum: "humanized out \<longleftrightarrow>
       shouldRewrite e req w
       \<and> (reply_text (rewrite_standard_reply w) \<noteq> []
          \<or> (humanizeLevelText (req_humanizeLevel req) = ''strong''
              \<and> remainingMs (elapsed_at_strong w) > 20000 \<and> reply_text (rewrite_strong_reply w) \<noteq> []))"
    and calls: "\<forall>p. Rewrite p \<in> set evs \<longleftrightarrow>
       shouldRewrite e req w
       \<and> (p = ''rewrite_standard''
          \<or> (p = ''rewrite_strong'' \<and> humanizeLevelText (req_humanizeLevel req) = ''strong''
              \<and> remainingMs (elapsed_at_strong w) > 20000))"
    by (rule POST_final)
  from full have full': "db_body db =
               buildGenerationNotice
                 (if isPrivateMode req then ''Private SOP context''
                  else if internet_fallback_used out then ''Internet fallback'' else ''Universe-based'')
                 (if workflow_status out = ''review'' then ''Needs manual review'' else ''Validated'')
               @ trim
                   (let draft = stripTrailingSourcesSection t @ formatSourcesSection (out_citations out)
                    in if internet_fallback_used out \<and> \<not> has_notice_heading draft
                       then draft @ ''\<newline>\<newline>## Content Source Notice\<newline>''
                              @ content_source_notice out @ ''\<newline>''
                       else draft)"
    unfolding with_sources_and_notice_def .
  from full' have "db_body db \<noteq> []" by (simp add: buildGenerationNotice_def)
  with k t full' ins flags show ?thesis by blast
qed

lemma example_late_body:
  "(case POST example_env (example_world\<lparr>elapsed_at_swarm := 75000\<rparr>) example_request of
      (Json200 out, evs) \<Rightarrow>
        blocked out \<and> body out = []
        \<and> review_body out =
            ''## Generation Notice\<newline>Content source: Private SOP context\<newline>Status: Needs manual review\<newline>\<newline>Do it.\<newline>\<newline>## Sources / References\<newline>[1] SOP''
    | (JsonError a b c d, evs) \<Rightarrow> False)"
  by code_simp

theorem blocked_body_withheld_witness:
  "\<exists>out evs db trust review.
      POST example_env (example_world\<lparr>elapsed_at_swarm := 75000\<rparr>) example_request = (Json200 out, evs)
      \<and> InsertDraft db trust review \<in> set evs
      \<and> blocked out \<and> db_blocked db \<and> body out = [] \<and> review_body out = db_body db
      \<and> db_body db =
            ''## Generation Notice\<newline>Content source: Private SOP context\<newline>Status: Needs manual review\<newline>\<newline>Do it.\<newline>\<newline>## Sources / References\<newline>[1] SOP''"
proof -
  obtain out evs where
    run: "POST example_env (example_world\<lparr>elapsed_at_swarm := 75000\<rparr>) example_request = (Json200 out, evs)"
    and b: "blocked out" and e: "body out = []"
    and r: "review_body out =
            ''## Generation Notice\<newline>Content source: Private SOP context\<newline>Status: Needs manual review\<newline>\<newline>Do it.\<newline>\<newline>## Sources / References\<newline>[1] SOP''"
    using example_late_body by (auto split: prod.splits response.splits)
  from blocked_body_withheld [OF run] obtain full db trust review where
    ins: "InsertDraft db trust review \<in> set evs" and db: "db_body db = full"
    and bl: "db_blocked db = blocked out"
    and rb: "review_body out = (if blocked out then full else [])"
    by blast
  from rb b db have same: "review_body out = db_body db" by simp
  from bl b have dbb: "db_blocked db" by simp
  from same r have "db_body db =
            ''## Generation Notice\<newline>Content source: Private SOP context\<newline>Status: Needs manual review\<newline>\<newline>Do it.\<newline>\<newline>## Sources / References\<newline>[1] SOP''"
    by simp
  with run ins b dbb e same show ?thesis by blast
qed

subsection \<open>Time budget of the validation swarm\<close>

text \<open>
  C3, as amended. On a successful request the swarm is run exactly when more than 15 s of the
  85 s budget remain at that point, that is when less than 70 s have elapsed: the result
  then carries the swarm's results and score, and the citation agent has been called. From
  70 s on the swarm is skipped: the trust score is 0, all four agents are reported with
  status fail and the issue \<open>validation_skipped_time_budget\<close>, and no agent call is made.
\<close>

theorem swarm_runs_with_15s_left:
  assumes "POST e w req = (Json200 out, evs)"
  shows "(elapsed_at_swarm w < 70000 \<longrightarrow>
            validation_results out =
              results (validation_swarm (trustThreshold e) (mode_text req) (internet_fallback_used out)
                         (agent_replies w))
            \<and> trust_score out =
              trustScore (validation_swarm (trustThreshold e) (mode_text req) (internet_fallback_used out)
                            (agent_replies w))
            \<and> AgentCall ''validation_citation'' \<in> set evs)
       \<and> (70000 \<le> elapsed_at_swarm w \<longrightarrow>
            trust_score out = 0
            \<and> statuses (validation_results out) = [Fail, Fail, Fail, Fail]
            \<and> validation_results out =
                 \<lparr>citation = skipped_result, recency = skipped_result,
                  fact_check = skipped_result, tone = skipped_result\<rparr>
            \<and> issues skipped_result = [''validation_skipped_time_budget'']
            \<and> (\<forall>ev \<in> set evs. \<not> is_agent_call ev))"
proof -
  from assms obtain st text0 lastError ev_gen ev_rest where
    f: "finish e req w st
       (with_sources_and_notice (citations st) (internetFallbackUsed st) (contentSourceNotice st) text0)
     = (Json200 out, ev_rest)"
    and g: "generate_loop (generation_reply w) 0 (tried_candidates e) [] = (text0, lastError, ev_gen)"
    and evs: "evs = snd (retrieval req w) @ ev_gen @ ev_rest"
    by (rule POST_success)
  let ?b0 = "with_sources_and_notice (citations st) (internetFallbackUsed st) (contentSourceNotice st) text0"
  let ?swarm = "fst (swarm_stage e req w st)"
  from f have out: "out = outputForClient
         (baseOutput e req st ?swarm (fst (snd (rewrite_pass e req w st ?b0))))
         (labelled_body e req st ?swarm (fst (rewrite_pass e req w st ?b0)))
         (workflow_blocked e ?swarm) (inserted_id w)"
    and rest: "ev_rest = snd (snd (rewrite_pass e req w st ?b0)) @ snd (swarm_stage e req w st) @
      InsertDraft (outputForDb
           (baseOutput e req st ?swarm (fst (snd (rewrite_pass e req w st ?b0))))
           (labelled_body e req st ?swarm (fst (rewrite_pass e req w st ?b0)))
           (workflow_blocked e ?swarm))
         (trustScore ?swarm) (requiresReview e ?swarm)
      # (if inserted_id w \<noteq> [] then [InsertAgents (agentInserts ?swarm)] else [])"
    unfolding finish_eq by auto
  have fields: "validation_results out = results ?swarm" "trust_score out = trustScore ?swarm"
    "internet_fallback_used out = internetFallbackUsed st"
    unfolding out by (simp_all add: outputForClient_def base_output.extend_def baseOutput_def)
  have run: "validation_results out =
              results (validation_swarm (trustThreshold e) (mode_text req) (internet_fallback_used out)
                         (agent_replies w))
            \<and> trust_score out =
              trustScore (validation_swarm (trustThreshold e) (mode_text req) (internet_fallback_used out)
                            (agent_replies w))
            \<and> AgentCall ''validation_citation'' \<in> set evs" if "elapsed_at_swarm w < 70000"
    using that unfolding fields evs rest by (simp add: swarm_stage_cases swarm_calls_def)
  have no_calls: "\<forall>ev \<in> set evs. \<not> is_agent_call ev" if late: "70000 \<le> elapsed_at_swarm w"
  proof -
    have "\<forall>ev \<in> set (snd (retrieval req w)). \<not> is_agent_call ev"
      using POST_events retrieve_private_events [of w]
      by (auto simp: retrieval_def internet_fallback_def retrieve_public_def Let_def
          split: prod.splits sum.splits if_splits)
    moreover have "\<forall>ev \<in> set ev_gen. \<not> is_agent_call ev"
      using generate_loop_events [of "generation_reply w" 0 "tried_candidates e" "[]"] g by auto
    moreover have "\<forall>ev \<in> set (snd (snd (rewrite_pass e req w st ?b0))). \<not> is_agent_call ev"
      using rewrite_pass_events [of e req w st ?b0] by auto
    moreover have "snd (swarm_stage e req w st) = []"
      using late by (simp add: swarm_stage_cases)
    ultimately show ?thesis unfolding evs rest by auto
  qed
  have skipped: "trust_score out = 0
            \<and> statuses (validation_results out) = [Fail, Fail, Fail, Fail]
            \<and> validation_results out =
                 \<lparr>citation = skipped_result, recency = skipped_result,
                  fact_check = skipped_result, tone = skipped_result\<rparr>
            \<and> issues skipped_result = [''validation_skipped_time_budget'']"
    if "70000 \<le> elapsed_at_swarm w"
    using that unfolding fields
    by (simp add: swarm_stage_cases skipped_swarm_def skipped_result_def statuses_def)
  from run skipped no_calls show ?thesis by blast
qed

lemma example_success:
  "(case POST example_env example_world example_request of
      (Json200 out, evs) \<Rightarrow> True
    | (JsonError a b c d, evs) \<Rightarrow> False)"
  by code_simp

theorem swarm_runs_with_15s_left_witness:
  "(\<exists>out evs. POST example_env example_world example_request = (Json200 out, evs)
       \<and> AgentCall ''validation_citation'' \<in> set evs
       \<and> validation_results out =
            results (validation_swarm (Fin 80) ''private'' (internet_fallback_used out)
                       (agent_replies example_world)))
   \<and> (\<exists>out evs. POST example_env (example_world\<lparr>elapsed_at_swarm := 75000\<rparr>) example_request
                    = (Json200 out, evs)
       \<and> trust_score out = 0 \<and> statuses (validation_results out) = [Fail, Fail, Fail, Fail]
       \<and> list_all (\<lambda>ev. \<not> is_agent_call ev) evs)"
proof -
  obtain out evs where run: "POST example_env example_world example_request = (Json200 out, evs)"
    using example_success by (auto split: prod.splits response.splits)
  have early: "elapsed_at_swarm example_world < 70000" "trustThreshold example_env = Fin 80"
    "mode_text example_request = ''private''"
    by (simp_all add: example_world_def example_env_def example_request_def mode_text_def)
  from swarm_runs_with_15s_left [OF run] early run have a:
    "\<exists>out evs. POST example_env example_world example_request = (Json200 out, evs)
       \<and> AgentCall ''validation_citation'' \<in> set evs
       \<and> validation_results out =
            results (validation_swarm (Fin 80) ''private'' (internet_fallback_used out)
                       (agent_replies example_world))"
    by auto
  obtain out' evs' where
    run': "POST example_env (example_world\<lparr>elapsed_at_swarm := 75000\<rparr>) example_request = (Json200 out', evs')"
    using example_late_blocked by (auto split: prod.splits response.splits)
  have late: "70000 \<le> elapsed_at_swarm (example_world\<lparr>elapsed_at_swarm := 75000\<rparr>)"
    by simp
  from swarm_runs_with_15s_left [OF run'] late run' have b:
    "\<exists>out evs. POST example_env (example_world\<lparr>elapsed_at_swarm := 75000\<rparr>) example_request
                    = (Json200 out, evs)
       \<and> trust_score out = 0 \<and> statuses (validation_results out) = [Fail, Fail, Fail, Fail]
       \<and> list_all (\<lambda>ev. \<not> is_agent_call ev) evs"
    by (auto simp: list_all_iff)
  from a b show ?thesis by blast
qed

text \<open>
  C3 as the specification states it fails: with 75 s elapsed, 10 s of the 85 s budget are
  left, yet the swarm is skipped.
\<close>

theorem swarm_skipped_within_budget_counterexample:
  "remainingMs 75000 = 10000
   \<and> (case POST example_env (example_world\<lparr>elapsed_at_swarm := 75000\<rparr>) example_request of
         (Json200 out, evs) \<Rightarrow>
           trust_score out = 0 \<and> statuses (validation_results out) = [Fail, Fail, Fail, Fail]
           \<and> list_all (\<lambda>ev. \<not> is_agent_call ev) evs
       | (JsonError a b c d, evs) \<Rightarrow> False)"
  by code_simp

subsection \<open>Workflow decision\<close>

text \<open>
  C4 fails on the code. With the threshold configured as 0 and the swarm skipped for lack
  of time, all four agents are reported as failed, yet the request is neither blocked nor
  sent to review: its status is \<open>draft\<close>. A run of the swarm in which all four agents fail
  has the same trust score and the same four statuses, and is sent to review: the decision
  is not a function of the score and the statuses.
\<close>

theorem skipped_swarm_not_reviewed:
  "(case POST (example_env\<lparr>trustThreshold := Fin 0\<rparr>) (example_world\<lparr>elapsed_at_swarm := 80000\<rparr>)
           example_request of
      (Json200 out, evs) \<Rightarrow>
        trust_score out = 0 \<and> statuses (validation_results out) = [Fail, Fail, Fail, Fail]
        \<and> blocked out = False \<and> workflow_status out = ''draft''
    | (JsonError a b c d, evs) \<Rightarrow> False)
   \<and> trustScore (validation_swarm (Fin 0) ''news'' False failing_replies) = trustScore skipped_swarm
   \<and> statuses (results (validation_swarm (Fin 0) ''news'' False failing_replies))
       = statuses (results skipped_swarm)
   \<and> workflowStatus (example_env\<lparr>trustThreshold := Fin 0\<rparr>)
         (validation_swarm (Fin 0) ''news'' False failing_replies) = ''review''
   \<and> workflowStatus (example_env\<lparr>trustThreshold := Fin 0\<rparr>) skipped_swarm = ''draft''"
  by code_simp

subsection \<open>Humanize gate\<close>

lemma humanizeLevelText_cases:
  "humanizeLevelText v =
     (if v = Str ''off'' then ''off'' else if v = Str ''strong'' then ''strong'' else ''standard'')"
  by (cases v) (auto simp: humanizeLevelText_def validHumanizeLevels_def)

lemma contentTypeText_meta_tags:
  "contentTypeText v = ''meta_tags'' \<longleftrightarrow> v = Str ''meta_tags''"
  by (cases v) (auto simp: contentTypeText_def validContentTypes_def)

lemma humanizeLevelText_strong: "humanizeLevelText v = ''strong'' \<longleftrightarrow> v = Str ''strong''"
  by (simp add: humanizeLevelText_cases)

text \<open>
  C10. A \<^verbatim>\<open>humanizeLevel\<close> that is absent, not a string, or not one of \<open>off\<close>, \<open>standard\<close>,
  \<open>strong\<close> is read as \<open>standard\<close>, so the level is \<open>off\<close> only when the client sends the
  string \<open>off\<close>. The gate of the rewrite is open exactly when a rewrite model is
  configured, the client did not send \<open>off\<close>, the content type is not \<open>meta_tags\<close>, and more
  than 20 s of the 85 s budget remain. With the gate closed the draft is left as it is and
  no rewrite call is made. On a successful request the standard rewrite call is made
  exactly when the gate is open, and the strong one exactly when moreover the client sent
  \<open>strong\<close> and more than 20 s remain then; the result is marked \<open>humanized\<close> exactly when
  a call that was made gave text; and the full body is built from the text of the last
  rewrite call that gave text, or from the generated text when there is none.
\<close>

theorem humanize_gate_default_standard:
  "humanizeLevelText v \<in> {''off'', ''standard'', ''strong''}
   \<and> (v \<notin> {Str ''off'', Str ''standard'', Str ''strong''} \<longrightarrow> humanizeLevelText v = ''standard'')
   \<and> (humanizeLevelText v = ''off'' \<longleftrightarrow> v = Str ''off'')
   \<and> (shouldRewrite e req w \<longleftrightarrow>
        humanizeContentModel e \<noteq> [] \<and> req_humanizeLevel req \<noteq> Str ''off''
        \<and> req_contentType req \<noteq> Str ''meta_tags'' \<and> 20000 < 85000 - elapsed_at_rewrite w)
   \<and> (\<not> shouldRewrite e req w \<longrightarrow> rewrite_pass e req w st draft = (draft, False, []))
   \<and> (POST e w req = (Json200 out, evs) \<longrightarrow>
        (Rewrite ''rewrite_standard'' \<in> set evs \<longleftrightarrow> shouldRewrite e req w)
      \<and> (Rewrite ''rewrite_strong'' \<in> set evs \<longleftrightarrow>
           shouldRewrite e req w \<and> req_humanizeLevel req = Str ''strong''
           \<and> 20000 < 85000 - elapsed_at_strong w)
      \<and> (humanized out \<longleftrightarrow>
           shouldRewrite e req w
           \<and> (reply_text (rewrite_standard_reply w) \<noteq> []
              \<or> (req_humanizeLevel req = Str ''strong'' \<and> 20000 < 85000 - elapsed_at_strong w
                  \<and> reply_text (rewrite_strong_reply w) \<noteq> [])))
      \<and> (\<exists>k<length (tried_candidates e).
            reply_text (generation_reply w k) \<noteq> []
          \<and> (\<forall>i<k. reply_text (generation_reply w i) = [])
          \<and> (if blocked out then review_body out else body out) =
               buildGenerationNotice
                 (if isPrivateMode req then ''Private SOP context''
                  else if internet_fallback_used out then ''Internet fallback'' else ''Universe-based'')
                 (if workflow_status out = ''review'' then ''Needs manual review'' else ''Validated'')
               @ trim (with_sources_and_notice (out_citations out) (internet_fallback_used out)
                   (content_source_notice out)
                   (if shouldRewrite e req w \<and> req_humanizeLevel req = Str ''strong''
                       \<and> 20000 < 85000 - elapsed_at_strong w
                       \<and> reply_text (rewrite_strong_reply w) \<noteq> []
                    then reply_text (rewrite_strong_reply w)
                    else if shouldRewrite e req w \<and> reply_text (rewrite_standard_reply w) \<noteq> []
                    then reply_text (rewrite_standard_reply w)
                    else reply_text (generation_reply w k)))))"
proof (intro conjI impI)
  show "humanizeLevelText v \<in> {''off'', ''standard'', ''strong''}"
    by (simp add: humanizeLevelText_cases)
  show "humanizeLevelText v = ''standard''" if "v \<notin> {Str ''off'', Str ''standard'', Str ''strong''}"
    using that by (simp add: humanizeLevelText_cases)
  show off: "humanizeLevelText v = ''off'' \<longleftrightarrow> v = Str ''off''" for v
    by (simp add: humanizeLevelText_cases)
  show "shouldRewrite e req w \<longleftrightarrow>
        humanizeContentModel e \<noteq> [] \<and> req_humanizeLevel req \<noteq> Str ''off''
        \<and> req_contentType req \<noteq> Str ''meta_tags'' \<and> 20000 < 85000 - elapsed_at_rewrite w"
    unfolding shouldRewrite_def off contentTypeText_meta_tags remainingMs_def by simp
  show "rewrite_pass e req w st draft = (draft, False, [])" if "\<not> shouldRewrite e req w"
    using that by (simp add: rewrite_pass_def)
next
  assume run: "POST e w req = (Json200 out, evs)"
  then obtain k t db trust review where
    k: "k < length (tried_candidates e)"
      "reply_text (generation_reply w k) \<noteq> []"
      "\<forall>i<k. reply_text (generation_reply w i) = []"
    and t: "t = (if shouldRewrite e req w \<and> humanizeLevelText (req_humanizeLevel req) = ''strong''
             \<and> remainingMs (elapsed_at_strong w) > 20000 \<and> reply_text (rewrite_strong_reply w) \<noteq> []
          then reply_text (rewrite_strong_reply w)
          else if shouldRewrite e req w \<and> reply_text (rewrite_standard_reply w) \<noteq> []
          then reply_text (rewrite_standard_reply w)
          else reply_text (generation_reply w k))"
    and ins: "InsertDraft db trust review \<in> set evs"
    and full: "db_body db =
       buildGenerationNotice
         (if isPrivateMode req then ''Private SOP context''
          else if internet_fallback_used out then ''Internet fallback'' else ''Universe-based'')
         (if workflow_status out = ''review'' then ''Needs manual review'' else ''Validated'')
       @ trim (with_sources_and_notice (out_citations out) (internet_fallback_used out)
                 (content_source_notice out) t)"
    and flags: "db_blocked db = blocked out"
      "body out = (if blocked out then [] else db_body db)"
      "review_body out = (if blocked out then db_body db else [])"
    and hum: "humanized out \<longleftrightarrow>
       shouldRewrite e req w
       \<and> (reply_text (rewrite_standard_reply w) \<noteq> []
          \<or> (humanizeLevelText (req_humanizeLevel req) = ''strong''
              \<and> remainingMs (elapsed_at_strong w) > 20000 \<and> reply_text (rewrite_strong_reply w) \<noteq> []))"
    and calls: "\<forall>p. Rewrite p \<in> set evs \<longleftrightarrow>
       shouldRewrite e req w
       \<and> (p = ''rewrite_standard''
          \<or> (p = ''rewrite_strong'' \<and> humanizeLevelText (req_humanizeLevel req) = ''strong''
              \<and> remainingMs (elapsed_at_strong w) > 20000))"
    by (rule POST_final)
  show "Rewrite ''rewrite_standard'' \<in> set evs \<longleftrightarrow> shouldRewrite e req w"
    using calls by simp
  show "Rewrite ''rewrite_strong'' \<in> set evs \<longleftrightarrow>
           shouldRewrite e req w \<and> req_humanizeLevel req = Str ''strong''
           \<and> 20000 < 85000 - elapsed_at_strong w"
    using calls by (simp add: humanizeLevelText_strong remainingMs_def)
  show "humanized out \<longleftrightarrow>
           shouldRewrite e req w
           \<and> (reply_text (rewrite_standard_reply w) \<noteq> []
              \<or> (req_humanizeLevel req = Str ''strong'' \<and> 20000 < 85000 - elapsed_at_strong w
                  \<and> reply_text (rewrite_strong_reply w) \<noteq> []))"
    using hum by (simp add: humanizeLevelText_strong remainingMs_def)
  from flags have "(if blocked out then review_body out else body out) = db_body db" by simp
  with full t have "(if blocked out then review_body out else body out) =
               buildGenerationNotice
                 (if isPrivateMode req then ''Private SOP context''
                  else if internet_fallback_used out then ''Internet fallback'' else ''Universe-based'')
                 (if workflow_status out = ''review'' then ''Needs manual review'' else ''Validated'')
               @ trim (with_sources_and_notice (out_citations out) (internet_fallback_used out)
                   (content_source_notice out)
                   (if shouldRewrite e req w \<and> req_humanizeLevel req = Str ''strong''
                       \<and> 20000 < 85000 - elapsed_at_strong w
                       \<and> reply_text (rewrite_strong_reply w) \<noteq> []
                    then reply_text (rewrite_strong_reply w)
                    else if shouldRewrite e req w \<and> reply_text (rewrite_standard_reply w) \<noteq> []
                    then reply_text (rewrite_standard_reply w)
                    else reply_text (generation_reply w k)))"
    by (simp only: humanizeLevelText_strong remainingMs_def)
  with k show "\<exists>k<length (tried_candidates e).
            reply_text (generation_reply w k) \<noteq> []
          \<and> (\<forall>i<k. reply_text (generation_reply w i) = [])
          \<and> (if blocked out then review_body out else body out) =
               buildGenerationNotice
                 (if isPrivateMode req then ''Private SOP context''
                  else if internet_fallback_used out then ''Internet fallback'' else ''Universe-based'')
                 (if workflow_status out = ''review'' then ''Needs manual review'' else ''Validated'')
               @ trim (with_sources_and_notice (out_citations out) (internet_fallback_used out)
                   (content_source_notice out)
                   (if shouldRewrite e req w \<and> req_humanizeLevel req = Str ''strong''
                       \<and> 20000 < 85000 - elapsed_at_strong w
                       \<and> reply_text (rewrite_strong_reply w) \<noteq> []
                    then reply_text (rewrite_strong_reply w)
                    else if shouldRewrite e req w \<and> reply_text (rewrite_standard_reply w) \<noteq> []
                    then reply_text (rewrite_standard_reply w)
                    else reply_text (generation_reply w k)))"
    by blast
qed

lemma example_rewritten:
  "(case POST example_env (example_world\<lparr>rewrite_standard_reply := HttpOk ''Done.''\<rparr>)
           (example_request\<lparr>req_humanizeLevel := Falsy\<rparr>) of
      (Json200 out, evs) \<Rightarrow>
        \<not> blocked out
        \<and> body out =
            ''## Generation Notice\<newline>Content source: Private SOP context\<newline>Status: Validated\<newline>\<newline>Done.\<newline>\<newline>## Sources / References\<newline>[1] SOP''
    | (JsonError a b c d, evs) \<Rightarrow> False)"
  by code_simp

theorem humanize_gate_default_standard_witness:
  "humanizeLevelText (Truthy ''1'') = ''standard''
   \<and> humanizeLevelText (Str ''OFF'') = ''standard''
   \<and> shouldRewrite example_env (example_request\<lparr>req_humanizeLevel := Falsy\<rparr>) example_world
   \<and> \<not> shouldRewrite example_env example_request example_world
   \<and> rewrite_pass example_env example_request example_world initial_state ''Draft.'' = (''Draft.'', False, [])
   \<and> (\<exists>out evs.
        POST example_env (example_world\<lparr>rewrite_standard_reply := HttpOk ''Done.''\<rparr>)
          (example_request\<lparr>req_humanizeLevel := Falsy\<rparr>) = (Json200 out, evs)
        \<and> Rewrite ''rewrite_standard'' \<in> set evs \<and> Rewrite ''rewrite_strong'' \<notin> set evs
        \<and> humanized out
        \<and> body out =
            ''## Generation Notice\<newline>Content source: Private SOP context\<newline>Status: Validated\<newline>\<newline>Done.\<newline>\<newline>## Sources / References\<newline>[1] SOP'')"
proof -
  have a: "humanizeLevelText (Truthy ''1'') = ''standard''"
    using humanize_gate_default_standard [of "Truthy ''1''"] by simp
  have b: "humanizeLevelText (Str ''OFF'') = ''standard''"
    using humanize_gate_default_standard [of "Str ''OFF''"] by simp
  have c: "shouldRewrite example_env (example_request\<lparr>req_humanizeLevel := Falsy\<rparr>) example_world"
    using humanize_gate_default_standard
      [of _ example_env "example_request\<lparr>req_humanizeLevel := Falsy\<rparr>" example_world]
    by (simp add: example_env_def example_request_def example_world_def)
  have d: "\<not> shouldRewrite example_env example_request example_world"
    using humanize_gate_default_standard [of _ example_env example_request example_world]
    by (simp add: example_request_def)
  have e: "rewrite_pass example_env example_request example_world initial_state ''Draft.'' = (''Draft.'', False, [])"
    using humanize_gate_default_standard
      [of _ example_env example_request example_world initial_state "''Draft.''"] d
    by blast
  let ?w = "example_world\<lparr>rewrite_standard_reply := HttpOk ''Done.''\<rparr>"
  let ?req = "example_request\<lparr>req_humanizeLevel := Falsy\<rparr>"
  obtain out evs where run: "POST example_env ?w ?req = (Json200 out, evs)"
    and body: "body out =
            ''## Generation Notice\<newline>Content source: Private SOP context\<newline>Status: Validated\<newline>\<newline>Done.\<newline>\<newline>## Sources / References\<newline>[1] SOP''"
    using example_rewritten by (auto split: prod.splits response.splits)
  note inst = humanize_gate_default_standard [of _ example_env ?req ?w _ _ out evs]
  have gate: "shouldRewrite example_env ?req ?w"
    using inst by (simp add: example_env_def example_request_def example_world_def)
  have rt: "reply_text (rewrite_standard_reply ?w) \<noteq> []"
    by (simp add: reply_text_def trim_def trimStart_def trimEnd_def is_ws_def)
  have lvl: "req_humanizeLevel ?req \<noteq> Str ''strong''" by simp
  from inst run gate have one: "Rewrite ''rewrite_standard'' \<in> set evs" by blast
  from inst run lvl have two: "Rewrite ''rewrite_strong'' \<notin> set evs" by blast
  from inst run gate rt have three: "humanized out" by blast
  from run one two three body have
    "\<exists>out evs. POST example_env ?w ?req = (Json200 out, evs)
        \<and> Rewrite ''rewrite_standard'' \<in> set evs \<and> Rewrite ''rewrite_strong'' \<notin> set evs
        \<and> humanized out
        \<and> body out =
            ''## Generation Notice\<newline>Content source: Private SOP context\<newline>Status: Validated\<newline>\<newline>Done.\<newline>\<newline>## Sources / References\<newline>[1] SOP''"
    by blast
  with a b c d e show ?thesis by blast
qed

subsection \<open>Content source notice\<close>


lemma notice_heading_here_Nil [simp]: "\<not> notice_heading_here []"
  by (simp add: notice_heading_here_def)


lemma hash_not_ws [simp]: "\<not> is_ws (CHR ''#'')"
  by (simp add: is_ws_def)
















































text \<open>
  The handler's pattern is not tied to the start of a line. A draft that only mentions the
  heading inside a sentence passes its test, so nothing is appended, and the body is left
  without a notice section.
\<close>

lemma notice_mentioned_inside_sentence:
  "(case POST example_env
           (example_world\<lparr>generation_reply := (\<lambda>k. HttpOk ''See the ## Content Source Notice.'')\<rparr>)
           (example_request\<lparr>req_mode := Str ''news''\<rparr>) of
      (Json200 out, evs) \<Rightarrow>
        internet_fallback_used out \<and> \<not> blocked out \<and> notice_count (body out) = 1
        \<and> notice_sections (body out) = 0
    | (JsonError a b c d, evs) \<Rightarrow> False)"
  by code_simp

subsection \<open>Sources section of the final body\<close>

lemma stripTrailingSourcesSection_cut:
  "(\<exists>i<length t. sources_heading_here (drop i t) \<and> (\<forall>j<i. \<not> sources_heading_here (drop j t))
        \<and> stripTrailingSourcesSection t = trim (take i t))
   \<or> ((\<forall>j. \<not> sources_heading_here (drop j t)) \<and> stripTrailingSourcesSection t = trim t)"
proof (cases "search_sources_heading t")
  case None
  then have "\<forall>j. \<not> sources_heading_here (drop j t)" by (simp add: search_None_iff)
  with None show ?thesis by (simp add: stripTrailingSourcesSection_def)
next
  case (Some n)
  from search_Some_first [OF Some] Some show ?thesis
    by (intro disjI1 exI [of _ n]) (simp add: stripTrailingSourcesSection_def)
qed

text \<open>
  C8, as amended. The text \<open>txt\<close> a model returned is cut at the first place where a level-2
  heading \<open>## Sources / References\<close>, \<open>## Sources\<close> or \<open>## References\<close> stands (in any
  letter case, after a line break and with a line break after it): what is before that
  place is kept, trimmed, and the rest is dropped; when there is no such place all of
  \<open>txt\<close> is kept, trimmed. No such heading is left in what is kept, and the rendered section
  follows it at once. The rendered section is the fixed heading and then, for a citation
  list that is not empty, one entry per citation in the list's order, entry \<open>k\<close> (from 0)
  numbered \<open>k + 1\<close>; for the empty list it is the line \<open>No sources were retrieved.\<close> It
  depends on the citation list alone. On every successful request the full body (the
  client's \<open>body\<close>, or its \<open>review_body\<close> when blocked) is the generation notice followed by
  the trimmed draft, and the draft is what is kept of the text \<open>t\<close> of a model's reply, the
  section rendered from the citations of the response, and the content source notice where
  it is added.
\<close>

theorem sources_section_is_canonical:
  "((\<exists>i<length txt. sources_heading_here (drop i txt) \<and> (\<forall>j<i. \<not> sources_heading_here (drop j txt))
        \<and> stripTrailingSourcesSection txt = trim (take i txt))
     \<or> ((\<forall>j. \<not> sources_heading_here (drop j txt)) \<and> stripTrailingSourcesSection txt = trim txt))
   \<and> search_sources_heading (stripTrailingSourcesSection txt) = None
   \<and> prefix (stripTrailingSourcesSection txt @ formatSourcesSection cs)
        (with_sources_and_notice cs ifu notice txt)
   \<and> formatSourcesSection cs =
       (if cs = []
        then ''\<newline>\<newline>## Sources / References\<newline>No sources were retrieved.\<newline>''
        else ''\<newline>\<newline>## Sources / References\<newline>''
               @ join ''\<newline>'' (map (\<lambda>k. numbered_entry k (cs ! k)) [0..<length cs])
               @ ''\<newline>'')
   \<and> (POST e w req = (Json200 out, evs) \<longrightarrow>
        (\<exists>t. t \<noteq> []
           \<and> ((\<exists>k. t = reply_text (generation_reply w k)) \<or> t = reply_text (rewrite_standard_reply w)
               \<or> t = reply_text (rewrite_strong_reply w))
           \<and> (if blocked out then review_body out else body out) =
                buildGenerationNotice
                  (if isPrivateMode req then ''Private SOP context''
                   else if internet_fallback_used out then ''Internet fallback'' else ''Universe-based'')
                  (if workflow_status out = ''review'' then ''Needs manual review'' else ''Validated'')
                @ trim
                    (let draft = stripTrailingSourcesSection t @ formatSourcesSection (out_citations out)
                     in if internet_fallback_used out \<and> \<not> has_notice_heading draft
                        then draft @ ''\<newline>\<newline>## Content Source Notice\<newline>''
                               @ content_source_notice out @ ''\<newline>''
                        else draft)))"
proof (intro conjI impI)
  show "(\<exists>i<length txt. sources_heading_here (drop i txt) \<and> (\<forall>j<i. \<not> sources_heading_here (drop j txt))
        \<and> stripTrailingSourcesSection txt = trim (take i txt))
     \<or> ((\<forall>j. \<not> sources_heading_here (drop j txt)) \<and> stripTrailingSourcesSection txt = trim txt)"
    by (rule stripTrailingSourcesSection_cut)
  show "search_sources_heading (stripTrailingSourcesSection txt) = None"
    by (rule stripped_has_no_heading)
  show "prefix (stripTrailingSourcesSection txt @ formatSourcesSection cs)
        (with_sources_and_notice cs ifu notice txt)"
    by (simp add: with_sources_and_notice_def Let_def)
  show "formatSourcesSection cs =
       (if cs = []
        then ''\<newline>\<newline>## Sources / References\<newline>No sources were retrieved.\<newline>''
        else ''\<newline>\<newline>## Sources / References\<newline>''
               @ join ''\<newline>'' (map (\<lambda>k. numbered_entry k (cs ! k)) [0..<length cs])
               @ ''\<newline>'')"
    by (rule formatSourcesSection_entries)
next
  assume "POST e w req = (Json200 out, evs)"
  then obtain t db trust review where
    t: "t \<noteq> []"
      "(\<exists>k. t = reply_text (generation_reply w k)) \<or> t = reply_text (rewrite_standard_reply w)
       \<or> t = reply_text (rewrite_strong_reply w)"
    and full: "db_body db =
       buildGenerationNotice
         (if isPrivateMode req then ''Private SOP context''
          else if internet_fallback_used out then ''Internet fallback'' else ''Universe-based'')
         (if workflow_status out = ''review'' then ''Needs manual review'' else ''Validated'')
       @ trim (with_sources_and_notice (out_citations out) (internet_fallback_used out)
                 (content_source_notice out) t)"
    and ins: "InsertDraft db trust review \<in> set evs" "db_blocked db = blocked out"
    and flags: "body out = (if blocked out then [] else db_body db)"
      "review_body out = (if blocked out then db_body db else [])"
    by (rule POST_body)
  from flags have "(if blocked out then review_body out else body out) = db_body db" by simp
  with full have body: "(if blocked out then review_body out else body out) =
         buildGenerationNotice
           (if isPrivateMode req then ''Private SOP context''
            else if internet_fallback_used out then ''Internet fallback'' else ''Universe-based'')
           (if workflow_status out = ''review'' then ''Needs manual review'' else ''Validated'')
         @ trim
             (let draft = stripTrailingSourcesSection t @ formatSourcesSection (out_citations out)
              in if internet_fallback_used out \<and> \<not> has_notice_heading draft
                 then draft @ ''\<newline>\<newline>## Content Source Notice\<newline>''
                        @ content_source_notice out @ ''\<newline>''
                 else draft)"
    unfolding with_sources_and_notice_def by (simp only:)
  with t show "\<exists>t. t \<noteq> []
           \<and> ((\<exists>k. t = reply_text (generation_reply w k)) \<or> t = reply_text (rewrite_standard_reply w)
               \<or> t = reply_text (rewrite_strong_reply w))
           \<and> (if blocked out then review_body out else body out) =
                buildGenerationNotice
                  (if isPrivateMode req then ''Private SOP context''
                   else if internet_fallback_used out then ''Internet fallback'' else ''Universe-based'')
                  (if workflow_status out = ''review'' then ''Needs manual review'' else ''Validated'')
                @ trim
                    (let draft = stripTrailingSourcesSection t @ formatSourcesSection (out_citations out)
                     in if internet_fallback_used out \<and> \<not> has_notice_heading draft
                        then draft @ ''\<newline>\<newline>## Content Source Notice\<newline>''
                               @ content_source_notice out @ ''\<newline>''
                        else draft)"
    by blast
qed

lemma example_strip:
  "stripTrailingSourcesSection ''Body.\<newline>## sources \<newline>[1] Made up'' = ''Body.''"
  by code_simp

lemma example_sources_cut:
  "(case POST example_env
           (example_world\<lparr>generation_reply := (\<lambda>k. HttpOk ''Body.\<newline>## sources \<newline>[1] Made up'')\<rparr>)
           example_request of
      (Json200 out, evs) \<Rightarrow>
        \<not> blocked out
        \<and> out_citations out = [\<lparr>title = ''SOP'', url = [], source = ''SOP''\<rparr>]
        \<and> body out =
            ''## Generation Notice\<newline>Content source: Private SOP context\<newline>Status: Validated\<newline>\<newline>Body.\<newline>\<newline>## Sources / References\<newline>[1] SOP''
    | (JsonError a b c d, evs) \<Rightarrow> False)"
  by code_simp

lemma example_entry:
  "join ''\<newline>''
      (map (\<lambda>k. numbered_entry k ([\<lparr>title = ''SOP'', url = [], source = ''SOP''\<rparr>] ! k))
         [0..<length [\<lparr>title = ''SOP'', url = [], source = ''SOP''\<rparr>]]) = ''[1] SOP''"
  by code_simp

theorem sources_section_is_canonical_witness:
  "stripTrailingSourcesSection ''Body.\<newline>## sources \<newline>[1] Made up'' = ''Body.''
   \<and> search_sources_heading ''Body.'' = None
   \<and> (\<exists>out evs.
      POST example_env
        (example_world\<lparr>generation_reply := (\<lambda>k. HttpOk ''Body.\<newline>## sources \<newline>[1] Made up'')\<rparr>)
        example_request = (Json200 out, evs)
      \<and> formatSourcesSection (out_citations out) = ''\<newline>\<newline>## Sources / References\<newline>[1] SOP\<newline>''
      \<and> body out =
            ''## Generation Notice\<newline>Content source: Private SOP context\<newline>Status: Validated\<newline>\<newline>Body.\<newline>\<newline>## Sources / References\<newline>[1] SOP'')"
proof -
  let ?txt = "''Body.\<newline>## sources \<newline>[1] Made up''"
  let ?w = "example_world\<lparr>generation_reply := (\<lambda>k. HttpOk ?txt)\<rparr>"
  obtain out evs where run: "POST example_env ?w example_request = (Json200 out, evs)"
    and cs: "out_citations out = [\<lparr>title = ''SOP'', url = [], source = ''SOP''\<rparr>]"
    and body: "body out =
            ''## Generation Notice\<newline>Content source: Private SOP context\<newline>Status: Validated\<newline>\<newline>Body.\<newline>\<newline>## Sources / References\<newline>[1] SOP''"
    using example_sources_cut by (auto split: prod.splits response.splits)
  note inst = sources_section_is_canonical
    [of ?txt "out_citations out" False "[]" example_env ?w example_request out evs]
  from inst have "search_sources_heading (stripTrailingSourcesSection ?txt) = None" by blast
  then have none: "search_sources_heading ''Body.'' = None" by (simp only: example_strip)
  from inst have "formatSourcesSection (out_citations out) =
       (if out_citations out = []
        then ''\<newline>\<newline>## Sources / References\<newline>No sources were retrieved.\<newline>''
        else ''\<newline>\<newline>## Sources / References\<newline>''
               @ join ''\<newline>'' (map (\<lambda>k. numbered_entry k (out_citations out ! k))
                                   [0..<length (out_citations out)])
               @ ''\<newline>'')"
    by blast
  then have fmt: "formatSourcesSection (out_citations out) = ''\<newline>\<newline>## Sources / References\<newline>[1] SOP\<newline>''"
    unfolding cs example_entry by simp
  from run fmt body have "\<exists>out evs.
      POST example_env ?w example_request = (Json200 out, evs)
      \<and> formatSourcesSection (out_citations out) = ''\<newline>\<newline>## Sources / References\<newline>[1] SOP\<newline>''
      \<and> body out =
            ''## Generation Notice\<newline>Content source: Private SOP context\<newline>Status: Validated\<newline>\<newline>Body.\<newline>\<newline>## Sources / References\<newline>[1] SOP''"
    by blast
  with example_strip none show ?thesis by blast
qed

text \<open>
  C8 as the specification states it fails: a references section the model puts under a
  level-3 heading is not cut, and the body of the response then holds the model's list and
  the rendered one.
\<close>

theorem model_references_section_kept_counterexample:
  "stripTrailingSourcesSection ''Body.\<newline>### References\<newline>[1] Made up'' =
     ''Body.\<newline>### References\<newline>[1] Made up''
   \<and> with_sources_and_notice example_citations False [] ''Body.\<newline>### References\<newline>[1] Made up'' =
     ''Body.\<newline>### References\<newline>[1] Made up\<newline>\<newline>## Sources / References\<newline>[1] FDA label - https://fda.gov/x\<newline>[2] Source\<newline>''
   \<and> (case POST example_env
              (example_world\<lparr>generation_reply := (\<lambda>k. HttpOk ''Body.\<newline>### References\<newline>[1] Made up'')\<rparr>)
              example_request of
         (Json200 out, evs) \<Rightarrow>
           body out =
             ''## Generation Notice\<newline>Content source: Private SOP context\<newline>Status: Validated\<newline>\<newline>Body.\<newline>### References\<newline>[1] Made up\<newline>\<newline>## Sources / References\<newline>[1] SOP''
       | (JsonError a b c d, evs) \<Rightarrow> False)"
  by code_simp

end
